theory Spec2Isabelle
  imports Main "HOL-Library.Char_ord" "HOL-Library.List_Lexorder" "HOL-Library.Word"
begin

unbundle bit_operations_syntax

section \<open>Python values used by the scripts\<close>

text \<open>
  A string is the UTF-8 encoding of a Python \<open>str\<close>. A Python \<open>dict\<close> is an
  association list in insertion order with pairwise distinct keys: \<open>d[k] = v\<close> replaces
  the value in place when \<open>k\<close> is already a key and appends the pair otherwise.

  The errors are the exceptions the scripts can raise. \<open>NonAsciiWord\<close> is none of
  Python's: it marks a word with a character outside ASCII given to \<open>capitalize\<close>,
  where Python consults the Unicode tables, which are not modelled.
\<close>

datatype py_error = IndexError | KeyError | TypeError | OSError | NonAsciiWord

type_synonym str_dict = "(string \<times> string) list"

fun dict_set :: "'k \<Rightarrow> 'v \<Rightarrow> ('k \<times> 'v) list \<Rightarrow> ('k \<times> 'v) list" where
  "dict_set k v [] = [(k, v)]"
| "dict_set k v ((k', v') # d) = (if k' = k then (k, v) # d else (k', v') # dict_set k v d)"

definition dict_get :: "('k \<times> 'v) list \<Rightarrow> 'k \<Rightarrow> 'v option" where
  "dict_get d k = map_of d k"

definition dict_keys :: "('k \<times> 'v) list \<Rightarrow> 'k list" where
  "dict_keys d = map fst d"

definition dict_values :: "('k \<times> 'v) list \<Rightarrow> 'v list" where
  "dict_values d = map snd d"

text \<open>\<open>{**a, **b}\<close>: the pairs of \<open>a\<close>, then each pair of \<open>b\<close> stored in turn.\<close>

definition dict_merge :: "('k \<times> 'v) list \<Rightarrow> ('k \<times> 'v) list \<Rightarrow> ('k \<times> 'v) list" where
  "dict_merge a b = foldl (\<lambda>d (k, v). dict_set k v d) a b"

text \<open>\<open>s.split(c)\<close> for a one-character separator; the result is never empty.\<close>

fun split_on :: "char \<Rightarrow> string \<Rightarrow> string list" where
  "split_on c [] = [[]]"
| "split_on c (x # xs) =
     (if x = c then [] # split_on c xs
      else (case split_on c xs of
              [] \<Rightarrow> [[x]]
            | w # ws \<Rightarrow> (x # w) # ws))"

text \<open>\<open>s.split(c)[-1]\<close>\<close>

definition last_segment :: "char \<Rightarrow> string \<Rightarrow> string" where
  "last_segment c s = last (split_on c s)"

text \<open>\<open>sep.join(xs)\<close>\<close>

fun join :: "string \<Rightarrow> string list \<Rightarrow> string" where
  "join sep [] = []"
| "join sep [x] = x"
| "join sep (x # y # ys) = x @ sep @ join sep (y # ys)"

text \<open>\<open>str(n)\<close> for an integer, as an f-string formats it.\<close>

definition digit_char :: "nat \<Rightarrow> char" where
  "digit_char d = char_of (48 + d)"

function str_nat :: "nat \<Rightarrow> string" where
  "str_nat n = (if n < 10 then [digit_char n] else str_nat (n div 10) @ [digit_char (n mod 10)])"
  by pat_completeness auto
termination
  by (relation "measure id") auto

definition str_int :: "int \<Rightarrow> string" where
  "str_int i = (if i < 0 then CHR ''-'' # str_nat (nat (- i)) else str_nat (nat i))"

text \<open>
  \<open>word.capitalize()\<close> for a word of ASCII characters: the first in upper case, the
  others in lower case. A word with another character is outside the model.
\<close>

definition upper_char :: "char \<Rightarrow> char" where
  "upper_char c = (let n = (of_char c :: nat) in if 97 \<le> n \<and> n \<le> 122 then char_of (n - 32) else c)"

definition lower_char :: "char \<Rightarrow> char" where
  "lower_char c = (let n = (of_char c :: nat) in if 65 \<le> n \<and> n \<le> 90 then char_of (n + 32) else c)"

definition is_ascii :: "string \<Rightarrow> bool" where
  "is_ascii w = list_all (\<lambda>c. (of_char c :: nat) < 128) w"

definition capitalize :: "string \<Rightarrow> py_error + string" where
  "capitalize w =
     (if is_ascii w
      then (case w of
              [] \<Rightarrow> Inr []
            | c # cs \<Rightarrow> Inr (upper_char c # map lower_char cs))
      else Inl NonAsciiWord)"

text \<open>\<open>''.join(word.capitalize() for word in words)\<close>\<close>

fun capitalize_all :: "string list \<Rightarrow> py_error + string" where
  "capitalize_all [] = Inr []"
| "capitalize_all (word # words) =
     (case capitalize word of
        Inl err \<Rightarrow> Inl err
      | Inr w \<Rightarrow>
          (case capitalize_all words of
             Inl err \<Rightarrow> Inl err
           | Inr ws \<Rightarrow> Inr (w @ ws)))"

section \<open>Raw schema documents\<close>

text \<open>
  A raw element definition is a JSON object; every key the scripts read is optional
  (\<open>None\<close>: the key is absent). The \<open>profile\<close> of a type is a list of references or a
  single reference. Bindings, constraints and mappings are objects with string values.
\<close>

datatype profile_ref = ProfileList "string list" | ProfileStr string

record type_def =
  td_code :: "string option"
  td_profile :: "profile_ref option"

record raw_element =
  raw_id :: "string option"
  raw_path :: "string option"
  raw_short :: "string option"
  raw_definition :: "string option"
  raw_min :: "int option"
  raw_max :: "string option"
  raw_type :: "type_def list option"
  raw_isModifier :: "bool option"
  raw_isSummary :: "bool option"
  raw_binding :: "str_dict option"
  raw_constraint :: "str_dict list option"
  raw_mapping :: "str_dict list option"
  raw_mustSupport :: "bool option"

text \<open>
  \<open>snapshot\<close> and \<open>differential\<close> are objects that may or may not have the key
  \<open>element\<close>: \<open>None\<close> is "no such object", \<open>Some None\<close> "the object has no element
  list". \<open>sd_other_keys\<close> says whether the document has a key that no script reads
  (\<open>resourceType\<close>, \<open>text\<close>, ...): it matters to the test \<open>if structure_def:\<close>,
  which only the empty object fails.
\<close>

record structure_def =
  sd_id :: "string option"
  sd_name :: "string option"
  sd_title :: "string option"
  sd_description :: "string option"
  sd_type :: "string option"
  sd_url :: "string option"
  sd_version :: "string option"
  sd_status :: "string option"
  sd_date :: "string option"
  sd_kind :: "string option"
  sd_abstract :: "bool option"
  sd_baseDefinition :: "string option"
  sd_derivation :: "string option"
  sd_fhirVersion :: "string option"
  sd_snapshot :: "raw_element list option option"
  sd_differential :: "raw_element list option option"
  sd_other_keys :: bool

text \<open>The document is \<open>{}\<close>, the only document that is false in a condition.\<close>

definition document_is_empty :: "structure_def \<Rightarrow> bool" where
  "document_is_empty d \<longleftrightarrow>
     sd_id d = None \<and> sd_name d = None \<and> sd_title d = None \<and> sd_description d = None
     \<and> sd_type d = None \<and> sd_url d = None \<and> sd_version d = None \<and> sd_status d = None
     \<and> sd_date d = None \<and> sd_kind d = None \<and> sd_abstract d = None
     \<and> sd_baseDefinition d = None \<and> sd_derivation d = None \<and> sd_fhirVersion d = None
     \<and> sd_snapshot d = None \<and> sd_differential d = None \<and> sd_other_keys d = False"

text \<open>\<open>d.get(key, default)\<close>\<close>

definition get_or :: "'a option \<Rightarrow> 'a \<Rightarrow> 'a" where
  "get_or v d = (case v of None \<Rightarrow> d | Some x \<Rightarrow> x)"

section \<open>fetch\_real\_data.py: element normalisation\<close>

record binding_info =
  bi_strength :: "string option"
  bi_description :: "string option"
  bi_valueSet :: "string option"

record constraint_info =
  ci_key :: "string option"
  ci_severity :: "string option"
  ci_human :: "string option"
  ci_expression :: "string option"
  ci_xpath :: "string option"

record element_info =
  el_id :: string
  el_path :: string
  el_name :: string
  el_short :: string
  el_description :: string
  el_min :: int
  el_max :: string
  el_cardinality :: string
  el_type :: string
  el_isModifier :: bool
  el_isSummary :: bool
  el_binding :: "binding_info option"
  el_constraints :: "constraint_info list"
  el_mapping :: "str_dict list"
  el_mustSupport :: "bool option"

text \<open>\<open>FHIRDataFetcher.extract_element_types\<close>\<close>

definition type_code_of :: "type_def \<Rightarrow> string" where
  "type_code_of type_def =
     (let type_code = get_or (td_code type_def) ''unknown'' in
      case td_profile type_def of
        None \<Rightarrow> type_code
      | Some (ProfileList ps) \<Rightarrow>
          (if ps = [] then type_code
           else type_code @ ''('' @ join '', '' (map (last_segment CHR ''/'') ps) @ '')'')
      | Some (ProfileStr p) \<Rightarrow>
          (if p = [] then type_code
           else type_code @ ''('' @ last_segment CHR ''/'' p @ '')''))"

definition extract_element_types :: "type_def list option \<Rightarrow> string" where
  "extract_element_types type_list =
     (case type_list of
        None \<Rightarrow> ''unknown''
      | Some [] \<Rightarrow> ''unknown''
      | Some ts \<Rightarrow> join '' | '' (map type_code_of ts))"

text \<open>\<open>FHIRDataFetcher.extract_binding_info\<close>\<close>

definition extract_binding_info :: "str_dict option \<Rightarrow> binding_info option" where
  "extract_binding_info binding =
     (case binding of
        None \<Rightarrow> None
      | Some [] \<Rightarrow> None
      | Some b \<Rightarrow> Some \<lparr>bi_strength = dict_get b ''strength'',
                         bi_description = dict_get b ''description'',
                         bi_valueSet = dict_get b ''valueSet''\<rparr>)"

text \<open>\<open>FHIRDataFetcher.extract_constraints\<close>\<close>

definition extract_constraints :: "str_dict list \<Rightarrow> constraint_info list" where
  "extract_constraints constraints =
     map (\<lambda>constraint. \<lparr>ci_key = dict_get constraint ''key'',
                         ci_severity = dict_get constraint ''severity'',
                         ci_human = dict_get constraint ''human'',
                         ci_expression = dict_get constraint ''expression'',
                         ci_xpath = dict_get constraint ''xpath''\<rparr>) constraints"

text \<open>The dictionary literal \<open>element_info\<close> of \<open>process_elements\<close>, for a kept path.\<close>

definition make_element_info :: "raw_element \<Rightarrow> string \<Rightarrow> bool \<Rightarrow> element_info" where
  "make_element_info element path is_profile =
     \<lparr>el_id = get_or (raw_id element) '''',
      el_path = path,
      el_name = last_segment CHR ''.'' path,
      el_short = get_or (raw_short element) '''',
      el_description = get_or (raw_definition element) (get_or (raw_short element) ''''),
      el_min = get_or (raw_min element) 0,
      el_max = get_or (raw_max element) ''1'',
      el_cardinality = str_int (get_or (raw_min element) 0) @ ''..'' @ get_or (raw_max element) ''1'',
      el_type = extract_element_types (raw_type element),
      el_isModifier = get_or (raw_isModifier element) False,
      el_isSummary = get_or (raw_isSummary element) False,
      el_binding = extract_binding_info (raw_binding element),
      el_constraints = extract_constraints (get_or (raw_constraint element) []),
      el_mapping = get_or (raw_mapping element) [],
      el_mustSupport = (if is_profile then Some (get_or (raw_mustSupport element) False) else None)\<rparr>"

text \<open>
  \<open>FHIRDataFetcher.process_elements\<close>: the loop appends one record for each element it
  does not skip.
\<close>

fun process_elements :: "raw_element list \<Rightarrow> bool \<Rightarrow> element_info list" where
  "process_elements [] is_profile = []"
| "process_elements (element # elements) is_profile =
     (let path = get_or (raw_path element) '''' in
      if path = [] \<or> CHR ''.'' \<notin> set path then process_elements elements is_profile
      else make_element_info element path is_profile # process_elements elements is_profile)"

text \<open>\<open>FHIRDataFetcher.calculate_element_stats\<close>\<close>

record element_stats =
  st_elementCount :: nat
  st_requiredElements :: nat
  st_optionalElements :: nat
  st_summaryElements :: nat
  st_modifierElements :: nat

definition calculate_element_stats :: "element_info list \<Rightarrow> element_stats" where
  "calculate_element_stats elements =
     \<lparr>st_elementCount = length elements,
      st_requiredElements = length (filter (\<lambda>e. el_min e > 0) elements),
      st_optionalElements = length (filter (\<lambda>e. el_min e = 0) elements),
      st_summaryElements = length (filter el_isSummary elements),
      st_modifierElements = length (filter el_isModifier elements)\<rparr>"

section \<open>fetch\_real\_data.py: document processing\<close>

record processed =
  p_id :: string
  p_name :: string
  p_title :: string
  p_description :: string
  p_type :: string
  p_resourceType :: string
  p_url :: string
  p_version :: string
  p_status :: string
  p_date :: string
  p_kind :: string
  p_abstract :: bool
  p_baseDefinition :: string
  p_derivation :: string
  p_fhirVersion :: string
  p_elements :: "element_info list"
  p_statistics :: element_stats
  p_mustSupportCount :: "nat option"

text \<open>\<open>snapshot = d.get('snapshot', {}); elements = snapshot.get('element', [])\<close>\<close>

definition snapshot_elements :: "structure_def \<Rightarrow> raw_element list" where
  "snapshot_elements d = get_or (get_or (sd_snapshot d) None) []"

text \<open>
  The metadata both processors read; \<open>type\<close> is the constant the processor writes, the
  element list is filled in afterwards.
\<close>

definition processed_header :: "structure_def \<Rightarrow> string \<Rightarrow> processed" where
  "processed_header d ty =
     \<lparr>p_id = get_or (sd_id d) '''',
      p_name = get_or (sd_name d) '''',
      p_title = get_or (sd_title d) '''',
      p_description = get_or (sd_description d) '''',
      p_type = ty,
      p_resourceType = get_or (sd_type d) '''',
      p_url = get_or (sd_url d) '''',
      p_version = get_or (sd_version d) '''',
      p_status = get_or (sd_status d) '''',
      p_date = get_or (sd_date d) '''',
      p_kind = get_or (sd_kind d) '''',
      p_abstract = get_or (sd_abstract d) False,
      p_baseDefinition = get_or (sd_baseDefinition d) '''',
      p_derivation = get_or (sd_derivation d) '''',
      p_fhirVersion = get_or (sd_fhirVersion d) '''',
      p_elements = [],
      p_statistics = calculate_element_stats [],
      p_mustSupportCount = None\<rparr>"

text \<open>
  \<open>FHIRDataFetcher.process_fhir_structure_definition\<close>. The result is \<open>None\<close> when
  the body raises; no step of it raises on a document of type \<open>structure_def\<close>.
\<close>

definition process_fhir_structure_definition :: "structure_def \<Rightarrow> processed option" where
  "process_fhir_structure_definition structure_def =
     (let elements = process_elements (snapshot_elements structure_def) False in
      Some ((processed_header structure_def ''resource'')
              \<lparr>p_elements := elements,
               p_statistics := calculate_element_stats elements\<rparr>))"

text \<open>\<open>FHIRDataFetcher.process_us_core_profile\<close>\<close>

definition process_us_core_profile :: "structure_def \<Rightarrow> processed option" where
  "process_us_core_profile profile_def =
     (let elements = process_elements (snapshot_elements profile_def) True in
      Some ((processed_header profile_def ''profile'')
              \<lparr>p_elements := elements,
               p_statistics := calculate_element_stats elements,
               p_mustSupportCount :=
                 Some (length (filter (\<lambda>elem. el_mustSupport elem = Some True) elements))\<rparr>))"

text \<open>
  \<open>FHIRDataFetcher.clean_profile_name\<close>. \<open>parts[1]\<close> is read only when
  \<open>parts[0] == 'us'\<close>, and raises IndexError when there is no second part.
\<close>

definition clean_profile_name :: "string \<Rightarrow> py_error + string" where
  "clean_profile_name profile_name =
     (case split_on CHR ''-'' profile_name of
        [] \<Rightarrow> Inl IndexError
      | [p0] \<Rightarrow> (if p0 = ''us'' then Inl IndexError else Inr profile_name)
      | p0 # p1 # name_parts \<Rightarrow>
          (if p0 = ''us'' \<and> p1 = ''core''
           then (case capitalize_all name_parts of
                   Inl err \<Rightarrow> Inl err
                 | Inr cleaned \<Rightarrow> Inr (''USCore'' @ cleaned))
           else Inr profile_name))"

section \<open>fetch\_real\_data.py: the download loops\<close>

text \<open>
  The fetcher's state. The network is outside the model: a download loop receives, for
  each name, what \<open>fetch_json\<close> returned (\<open>None\<close> on a failed fetch). A document
  that is \<open>None\<close> or empty fails the test \<open>if structure_def:\<close> and is skipped.
\<close>

record fetcher =
  fhir_resources :: "(string \<times> processed) list"
  us_core_profiles :: "(string \<times> processed) list"
  fhir_resources_downloaded :: nat
  us_core_profiles_downloaded :: nat

definition new_fetcher :: fetcher where
  "new_fetcher = \<lparr>fhir_resources = [], us_core_profiles = [],
                   fhir_resources_downloaded = 0, us_core_profiles_downloaded = 0\<rparr>"

fun download_fhir_resources :: "(string \<times> structure_def option) list \<Rightarrow> fetcher \<Rightarrow> fetcher" where
  "download_fhir_resources [] self = self"
| "download_fhir_resources ((resource_name, fetched) # rest) self =
     (case fetched of
        None \<Rightarrow> download_fhir_resources rest self
      | Some structure_def \<Rightarrow>
          (if document_is_empty structure_def then download_fhir_resources rest self
           else
             (case process_fhir_structure_definition structure_def of
                None \<Rightarrow> download_fhir_resources rest self
              | Some processed_resource \<Rightarrow>
                  download_fhir_resources rest
                    (self\<lparr>fhir_resources := dict_set resource_name processed_resource (fhir_resources self),
                           fhir_resources_downloaded := fhir_resources_downloaded self + 1\<rparr>))))"

text \<open>
  When \<open>clean_profile_name\<close> raises, the loop is left with the error; the fetcher keeps
  what the loop had stored until then.
\<close>

fun download_us_core_profiles ::
  "(string \<times> structure_def option) list \<Rightarrow> fetcher \<Rightarrow> py_error \<times> fetcher + fetcher" where
  "download_us_core_profiles [] self = Inr self"
| "download_us_core_profiles ((profile_name, fetched) # rest) self =
     (case fetched of
        None \<Rightarrow> download_us_core_profiles rest self
      | Some profile_def \<Rightarrow>
          (if document_is_empty profile_def then download_us_core_profiles rest self
           else
             (case process_us_core_profile profile_def of
                None \<Rightarrow> download_us_core_profiles rest self
              | Some processed_profile \<Rightarrow>
                  (case clean_profile_name profile_name of
                     Inl err \<Rightarrow> Inl (err, self)
                   | Inr clean_name \<Rightarrow>
                       download_us_core_profiles rest
                         (self\<lparr>us_core_profiles := dict_set clean_name processed_profile (us_core_profiles self),
                                us_core_profiles_downloaded := us_core_profiles_downloaded self + 1\<rparr>)))))"

section \<open>download\_specs.py: element processing\<close>

record dl_binding =
  dlb_strength :: "string option"
  dlb_valueSet :: "string option"

record dl_element =
  dl_name :: string
  dl_type :: string
  dl_cardinality :: string
  dl_description :: string
  dl_path :: string
  dl_binding :: "dl_binding option"
  dl_mustSupport :: "bool option"

text \<open>\<open>FHIRSpecDownloader.get_element_type\<close>\<close>

definition get_element_type :: "raw_element \<Rightarrow> string" where
  "get_element_type element =
     (case get_or (raw_type element) [] of
        [] \<Rightarrow> ''unknown''
      | t # ts \<Rightarrow> join '' | '' (map (\<lambda>t. get_or (td_code t) ''unknown'') (t # ts)))"

text \<open>\<open>FHIRSpecDownloader.get_element_binding\<close>\<close>

definition get_element_binding :: "raw_element \<Rightarrow> dl_binding option" where
  "get_element_binding element =
     (case raw_binding element of
        None \<Rightarrow> None
      | Some [] \<Rightarrow> None
      | Some (kv # b) \<Rightarrow>
          Some \<lparr>dlb_strength = dict_get (kv # b) ''strength'',
                dlb_valueSet = dict_get (kv # b) ''valueSet''\<rparr>)"

text \<open>\<open>FHIRSpecDownloader.process_element\<close>\<close>

definition process_element :: "raw_element \<Rightarrow> dl_element option" where
  "process_element element =
     (let path = get_or (raw_path element) '''' in
      if path = [] \<or> CHR ''.'' \<notin> set path then None
      else Some \<lparr>dl_name = last_segment CHR ''.'' path,
                 dl_type = get_element_type element,
                 dl_cardinality =
                   str_int (get_or (raw_min element) 0) @ ''..'' @ get_or (raw_max element) ''*'',
                 dl_description = get_or (raw_short element) (get_or (raw_definition element) ''''),
                 dl_path = path,
                 dl_binding = get_element_binding element,
                 dl_mustSupport = None\<rparr>)"

text \<open>The element loop of \<open>FHIRSpecDownloader.process_structure_definition\<close>.\<close>

fun dl_process_elements :: "raw_element list \<Rightarrow> dl_element list" where
  "dl_process_elements [] = []"
| "dl_process_elements (element # elements) =
     (if get_or (raw_path element) '''' \<noteq> [] \<and> CHR ''.'' \<in> set (get_or (raw_path element) '''')
      then (case process_element element of
              None \<Rightarrow> dl_process_elements elements
            | Some processed_element \<Rightarrow> processed_element # dl_process_elements elements)
      else dl_process_elements elements)"

text \<open>The element loop of \<open>FHIRSpecDownloader.process_us_core_profile\<close>.\<close>

fun dl_process_profile_elements :: "raw_element list \<Rightarrow> dl_element list" where
  "dl_process_profile_elements [] = []"
| "dl_process_profile_elements (element # elements) =
     (if get_or (raw_path element) '''' \<noteq> [] \<and> CHR ''.'' \<in> set (get_or (raw_path element) '''')
      then (case process_element element of
              None \<Rightarrow> dl_process_profile_elements elements
            | Some processed_element \<Rightarrow>
                (if raw_mustSupport element = Some True
                 then processed_element\<lparr>dl_mustSupport := Some True\<rparr>
                 else processed_element) # dl_process_profile_elements elements)
      else dl_process_profile_elements elements)"

section \<open>fetch\_datatypes.py: document processing\<close>

record dt_binding =
  dtb_strength :: string
  dtb_valueSet :: string

record dt_element =
  dte_path :: string
  dte_name :: string
  dte_cardinality :: string
  dte_type :: string
  dte_description :: string
  dte_binding :: "dt_binding option"

record dt_processed =
  dtp_id :: string
  dtp_name :: string
  dtp_title :: string
  dtp_description :: string
  dtp_kind :: string
  dtp_abstract :: bool
  dtp_type :: string
  dtp_baseDefinition :: string
  dtp_elements :: "dt_element list"

text \<open>\<open>FHIRDataTypeFetcher.extract_element_type\<close>\<close>

definition extract_element_type :: "raw_element \<Rightarrow> string" where
  "extract_element_type element =
     (case raw_type element of
        None \<Rightarrow> ''Element''
      | Some [] \<Rightarrow> ''Element''
      | Some (t # ts) \<Rightarrow>
          join '' | '' (filter (\<lambda>c. c \<noteq> []) (map (\<lambda>t. get_or (td_code t) '''') (t # ts))))"

text \<open>\<open>FHIRDataTypeFetcher.extract_binding\<close>\<close>

definition extract_binding :: "raw_element \<Rightarrow> dt_binding option" where
  "extract_binding element =
     (case raw_binding element of
        None \<Rightarrow> None
      | Some binding \<Rightarrow>
          Some \<lparr>dtb_strength = get_or (dict_get binding ''strength'') '''',
                dtb_valueSet = get_or (dict_get binding ''valueSet'') ''''\<rparr>)"

text \<open>The dictionary literal \<open>element_data\<close> of the loop.\<close>

definition element_data :: "raw_element \<Rightarrow> dt_element" where
  "element_data element =
     \<lparr>dte_path = get_or (raw_path element) '''',
      dte_name = (if get_or (raw_path element) '''' \<noteq> []
                  then last_segment CHR ''.'' (get_or (raw_path element) '''') else ''''),
      dte_cardinality =
        str_int (get_or (raw_min element) 0) @ ''..'' @ get_or (raw_max element) ''*'',
      dte_type = extract_element_type element,
      dte_description = get_or (raw_definition element) (get_or (raw_short element) ''''),
      dte_binding = extract_binding element\<rparr>"

text \<open>
  The element list \<open>FHIRDataTypeFetcher.process_structure_definition\<close> chooses: the
  differential's when it has one, else the snapshot's, else none.
\<close>

definition dt_chosen_elements :: "structure_def \<Rightarrow> raw_element list" where
  "dt_chosen_elements structure_def =
     (case sd_differential structure_def of
        Some (Some elements) \<Rightarrow> elements
      | _ \<Rightarrow> (case sd_snapshot structure_def of
                Some (Some elements) \<Rightarrow> elements
              | _ \<Rightarrow> []))"

text \<open>\<open>FHIRDataTypeFetcher.process_structure_definition\<close>\<close>

definition dt_process_structure_definition :: "structure_def \<Rightarrow> dt_processed option" where
  "dt_process_structure_definition structure_def =
     Some \<lparr>dtp_id = get_or (sd_id structure_def) '''',
           dtp_name = get_or (sd_name structure_def) '''',
           dtp_title = get_or (sd_title structure_def) '''',
           dtp_description = get_or (sd_description structure_def) '''',
           dtp_kind = get_or (sd_kind structure_def) '''',
           dtp_abstract = get_or (sd_abstract structure_def) False,
           dtp_type = get_or (sd_type structure_def) '''',
           dtp_baseDefinition = get_or (sd_baseDefinition structure_def) '''',
           dtp_elements = map element_data (dt_chosen_elements structure_def)\<rparr>"

section \<open>Library functions the scripts call\<close>

subsection \<open>hashlib.sha256\<close>

text \<open>
  SHA-256 (FIPS 180-4) on byte strings. A 32-bit word is an integer from 0 to
  \<open>2 ^ 32 - 1\<close>, with the wrap-around of addition written out. The round constants are
  the first 32 bits of the fractional parts of the cube roots of the first 64 primes, the
  initial state those of the square roots of the first 8 primes.
\<close>

type_synonym w32 = int

definition add32 :: "w32 \<Rightarrow> w32 \<Rightarrow> w32" where
  "add32 x y = (x + y) mod 4294967296"

definition rotr :: "nat \<Rightarrow> w32 \<Rightarrow> w32" where
  "rotr n x = x div 2 ^ n + (x mod 2 ^ n) * 2 ^ (32 - n)"

definition K256 :: "w32 list" where
  "K256 =
    [1116352408, 1899447441, 3049323471, 3921009573, 961987163, 1508970993, 2453635748, 2870763221,
     3624381080, 310598401, 607225278, 1426881987, 1925078388, 2162078206, 2614888103, 3248222580,
     3835390401, 4022224774, 264347078, 604807628, 770255983, 1249150122, 1555081692, 1996064986,
     2554220882, 2821834349, 2952996808, 3210313671, 3336571891, 3584528711, 113926993, 338241895,
     666307205, 773529912, 1294757372, 1396182291, 1695183700, 1986661051, 2177026350, 2456956037,
     2730485921, 2820302411, 3259730800, 3345764771, 3516065817, 3600352804, 4094571909, 275423344,
     430227734, 506948616, 659060556, 883997877, 958139571, 1322822218, 1537002063, 1747873779,
     1955562222, 2024104815, 2227730452, 2361852424, 2428436474, 2756734187, 3204031479, 3329325298]"

text \<open>Padding: the byte \<open>0x80\<close>, zeros up to 56 modulo 64, the bit length in 8 bytes.\<close>

definition be_bytes :: "nat \<Rightarrow> int \<Rightarrow> int list" where
  "be_bytes k n = map (\<lambda>i. (n div 256 ^ i) mod 256) (rev [0..<k])"

definition sha_pad :: "int list \<Rightarrow> int list" where
  "sha_pad bs =
     bs @ [128] @ replicate ((119 - length bs mod 64) mod 64) 0 @ be_bytes 8 (8 * int (length bs))"

fun be_words :: "int list \<Rightarrow> w32 list" where
  "be_words (a # b # c # d # bs) = (((a * 256 + b) * 256 + c) * 256 + d) # be_words bs"
| "be_words _ = []"

fun blocks :: "w32 list \<Rightarrow> w32 list list" where
  "blocks (w0 # w1 # w2 # w3 # w4 # w5 # w6 # w7 # w8 # w9 # w10 # w11 # w12 # w13 # w14 # w15 # ws) =
     [w0, w1, w2, w3, w4, w5, w6, w7, w8, w9, w10, w11, w12, w13, w14, w15] # blocks ws"
| "blocks _ = []"

text \<open>
  The message schedule as a sliding window of sixteen words: the word of round \<open>t + 16\<close>
  from the words of rounds \<open>t\<close>, \<open>t + 1\<close>, \<open>t + 9\<close> and \<open>t + 14\<close>.
\<close>

definition sched :: "w32 list \<Rightarrow> w32" where
  "sched w =
     add32 (add32 (w ! 0) (rotr 7 (w ! 1) XOR rotr 18 (w ! 1) XOR (w ! 1) div 2 ^ 3))
           (add32 (w ! 9) (rotr 17 (w ! 14) XOR rotr 19 (w ! 14) XOR (w ! 14) div 2 ^ 10))"

type_synonym sha_state = "w32 \<times> w32 \<times> w32 \<times> w32 \<times> w32 \<times> w32 \<times> w32 \<times> w32"

definition t1 :: "w32 \<Rightarrow> w32 \<Rightarrow> w32 \<Rightarrow> w32 \<Rightarrow> w32 \<Rightarrow> w32 \<Rightarrow> w32" where
  "t1 e f g h k w =
     add32 (add32 h (rotr 6 e XOR rotr 11 e XOR rotr 25 e))
           (add32 ((e AND f) XOR ((4294967295 - e) AND g)) (add32 k w))"

definition t2 :: "w32 \<Rightarrow> w32 \<Rightarrow> w32 \<Rightarrow> w32" where
  "t2 a b c =
     add32 (rotr 2 a XOR rotr 13 a XOR rotr 22 a) ((a AND b) XOR (a AND c) XOR (b AND c))"

fun rounds :: "w32 list \<Rightarrow> sha_state \<Rightarrow> w32 list \<Rightarrow> sha_state" where
  "rounds [] st w = st"
| "rounds (k # ks) (a, b, c, d, e, f, g, h) w =
     rounds ks
       (add32 (t1 e f g h k (w ! 0)) (t2 a b c), a, b, c, add32 d (t1 e f g h k (w ! 0)), e, f, g)
       (tl w @ [sched w])"

fun compress :: "sha_state \<Rightarrow> w32 list \<Rightarrow> sha_state" where
  "compress (a, b, c, d, e, f, g, h) block =
     (case rounds K256 (a, b, c, d, e, f, g, h) block of
        (a', b', c', d', e', f', g', h') \<Rightarrow>
          (add32 a a', add32 b b', add32 c c', add32 d d',
           add32 e e', add32 f f', add32 g g', add32 h h'))"

definition hex_digit :: "int \<Rightarrow> char" where
  "hex_digit d = ''0123456789abcdef'' ! nat d"

definition hex_word :: "w32 \<Rightarrow> string" where
  "hex_word w = map (\<lambda>i. hex_digit ((w div 16 ^ i) mod 16)) (rev [0..<8])"

fun hex_state :: "sha_state \<Rightarrow> string" where
  "hex_state (a, b, c, d, e, f, g, h) = concat (map hex_word [a, b, c, d, e, f, g, h])"

definition sha256_words :: "string \<Rightarrow> w32 list" where
  "sha256_words s = be_words (sha_pad (map of_char s))"

definition sha256_state :: "w32 list \<Rightarrow> sha_state" where
  "sha256_state ws =
     foldl compress
       (1779033703, 3144134277, 1013904242, 2773480762, 1359893119, 2600822924, 528734635, 1541459225)
       (blocks ws)"

text \<open>\<open>hashlib.sha256(content).hexdigest()\<close>\<close>

definition sha256_hexdigest :: "string \<Rightarrow> string" where
  "sha256_hexdigest s = hex_state (sha256_state (sha256_words s))"

subsection \<open>json.dump and json.dumps\<close>

text \<open>
  JSON values without floats. A string is the UTF-8 encoding of its text, without lone
  surrogates; a byte sequence that is not UTF-8 is the encoding of no text.

  With \<open>ensure_ascii=False\<close> the encoder escapes the quote, the backslash and the
  control characters below \<open>0x20\<close> and writes every other character as it is; a file
  opened with \<open>encoding='utf-8'\<close> then holds the bytes of the string. With
  \<open>ensure_ascii=True\<close>, the default, it also writes every character outside
  \<open>0x20..0x7e\<close> as \<open>\uXXXX\<close>, and as a pair of surrogates above \<open>U+FFFF\<close>.
\<close>

datatype json =
    JNull
  | JBool bool
  | JInt int
  | JStr string
  | JList "json list"
  | JObj "(string \<times> json) list"

definition u_escape :: "int \<Rightarrow> string" where
  "u_escape n =
     [CHR 0x5C, CHR ''u'', hex_digit (n div 4096 mod 16), hex_digit (n div 256 mod 16),
      hex_digit (n div 16 mod 16), hex_digit (n mod 16)]"

definition json_escape_char :: "char \<Rightarrow> string" where
  "json_escape_char c =
     (if c = CHR 0x22 then [CHR 0x5C, CHR 0x22]
      else if c = CHR 0x5C then [CHR 0x5C, CHR 0x5C]
      else if c = CHR 0x0A then [CHR 0x5C, CHR ''n'']
      else if c = CHR 0x0D then [CHR 0x5C, CHR ''r'']
      else if c = CHR 0x09 then [CHR 0x5C, CHR ''t'']
      else if c = CHR 0x08 then [CHR 0x5C, CHR ''b'']
      else if c = CHR 0x0C then [CHR 0x5C, CHR ''f'']
      else if (of_char c :: int) < 32 then u_escape (of_char c)
      else [c])"

text \<open>A string as \<open>ensure_ascii=False\<close> writes it.\<close>

definition json_string :: "string \<Rightarrow> string" where
  "json_string s = [CHR 0x22] @ concat (map json_escape_char s) @ [CHR 0x22]"

text \<open>
  A string as \<open>ensure_ascii=True\<close> writes it. The bytes are decoded as they are read:
  \<open>pending\<close> is the number of continuation bytes the current character still needs and
  \<open>cp\<close> the bits of its code point read so far.
\<close>

definition code_point_escape :: "int \<Rightarrow> string" where
  "code_point_escape cp =
     (if cp < 65536 then u_escape cp
      else u_escape (55296 + (cp - 65536) div 1024) @ u_escape (56320 + (cp - 65536) mod 1024))"

fun escape_ascii :: "nat \<Rightarrow> int \<Rightarrow> string \<Rightarrow> string" where
  "escape_ascii pending cp [] = []"
| "escape_ascii pending cp (c # cs) =
     (let n = (of_char c :: int) in
      if pending = 0 then
        (if n < 127 then json_escape_char c @ escape_ascii 0 0 cs
         else if n = 127 then u_escape 127 @ escape_ascii 0 0 cs
         else if 192 \<le> n \<and> n < 224 then escape_ascii 1 (n - 192) cs
         else if 224 \<le> n \<and> n < 240 then escape_ascii 2 (n - 224) cs
         else if 240 \<le> n \<and> n < 248 then escape_ascii 3 (n - 240) cs
         else escape_ascii 0 0 cs)
      else if pending = 1 then code_point_escape (cp * 64 + (n - 128)) @ escape_ascii 0 0 cs
      else escape_ascii (pending - 1) (cp * 64 + (n - 128)) cs)"

definition json_string_ascii :: "string \<Rightarrow> string" where
  "json_string_ascii s = [CHR 0x22] @ escape_ascii 0 0 s @ [CHR 0x22]"

text \<open>
  \<open>json.dumps(data, sort_keys=sort_keys)\<close>: the compact form with the separators
  \<open>', '\<close> and \<open>': '\<close>, and \<open>ensure_ascii=True\<close>. With \<open>sort_keys\<close> the pairs
  of every object are written in the order of their keys (the order of code points, which
  is the order of the UTF-8 bytes).
\<close>

fun dumps :: "bool \<Rightarrow> json \<Rightarrow> string" where
  "dumps sort_keys JNull = ''null''"
| "dumps sort_keys (JBool b) = (if b then ''true'' else ''false'')"
| "dumps sort_keys (JInt i) = str_int i"
| "dumps sort_keys (JStr s) = json_string_ascii s"
| "dumps sort_keys (JList xs) = ''['' @ join '', '' (map (dumps sort_keys) xs) @ '']''"
| "dumps sort_keys (JObj kvs) =
     ''{'' @ join '', ''
        (map (\<lambda>(k, s). json_string_ascii k @ '': '' @ s)
          ((if sort_keys then sort_key fst else (\<lambda>xs. xs))
             (map (\<lambda>kv. (fst kv, dumps sort_keys (snd kv))) kvs)))
     @ ''}''"

text \<open>
  \<open>json.dump(data, f, indent=2, ensure_ascii=False)\<close>: every item on a line of its own,
  indented by two spaces for each level; the items are separated by \<open>','\<close>, empty
  containers are \<open>[]\<close> and \<open>{}\<close>.
\<close>

definition newline_indent :: "nat \<Rightarrow> string" where
  "newline_indent level = CHR 0x0A # replicate (2 * level) CHR '' ''"

fun dump_indent :: "nat \<Rightarrow> json \<Rightarrow> string" where
  "dump_indent level JNull = ''null''"
| "dump_indent level (JBool b) = (if b then ''true'' else ''false'')"
| "dump_indent level (JInt i) = str_int i"
| "dump_indent level (JStr s) = json_string s"
| "dump_indent level (JList xs) =
     (if xs = [] then ''[]''
      else ''['' @ newline_indent (Suc level)
           @ join ('','' @ newline_indent (Suc level)) (map (dump_indent (Suc level)) xs)
           @ newline_indent level @ '']'')"
| "dump_indent level (JObj kvs) =
     (if kvs = [] then ''{}''
      else ''{'' @ newline_indent (Suc level)
           @ join ('','' @ newline_indent (Suc level))
               (map (\<lambda>kv. json_string (fst kv) @ '': '' @ dump_indent (Suc level) (snd kv)) kvs)
           @ newline_indent level @ ''}'')"

section \<open>The files of the data directory\<close>

text \<open>
  The data directory: for each path (relative to \<open>data/\<close>), what opening and reading
  the file there gives, the bytes of the file or the error it raises.
\<close>

type_synonym files = "string \<Rightarrow> py_error + string"

definition fhir_dir_file :: "string \<Rightarrow> string" where
  "fhir_dir_file name = ''fhir-r4/resources/'' @ name @ ''.json''"

definition us_core_dir_file :: "string \<Rightarrow> string" where
  "us_core_dir_file name = ''us-core-stu6.1/profiles/'' @ name @ ''.json''"

definition datatypes_dir_file :: "string \<Rightarrow> string" where
  "datatypes_dir_file name = ''fhir-r4/datatypes/'' @ name @ ''.json''"

text \<open>\<open>FHIRDataFetcher.save_resource_file\<close>\<close>

definition save_resource_file :: "string \<Rightarrow> json \<Rightarrow> string \<Rightarrow> files \<Rightarrow> files" where
  "save_resource_file name data spec_type fs =
     (let file_path = (if spec_type = ''fhir-r4'' then fhir_dir_file name else us_core_dir_file name)
      in fs(file_path := Inr (dump_indent 0 data)))"

text \<open>
  \<open>FHIRDataFetcher.calculate_file_hash\<close>: the bare \<open>except\<close> turns every error raised
  while the file is opened and read into the sentinel.
\<close>

definition calculate_file_hash :: "files \<Rightarrow> string \<Rightarrow> string" where
  "calculate_file_hash fs file_path =
     (case fs file_path of
        Inl err \<Rightarrow> ''sha256:unknown''
      | Inr content \<Rightarrow> ''sha256:'' @ take 16 (sha256_hexdigest content))"

text \<open>
  \<open>len(v)\<close>: the number of items of a list or an object, of characters of a string
  (the bytes that are not continuation bytes), and TypeError otherwise.
\<close>

definition py_len :: "json \<Rightarrow> py_error + nat" where
  "py_len v = (case v of
                 JList xs \<Rightarrow> Inr (length xs)
               | JObj kvs \<Rightarrow> Inr (length kvs)
               | JStr s \<Rightarrow>
                   Inr (length (filter (\<lambda>c. (of_char c :: nat) < 128 \<or> 192 \<le> (of_char c :: nat)) s))
               | _ \<Rightarrow> Inl TypeError)"

text \<open>
  \<open>FHIRDataTypeFetcher.save_data_type\<close>. The dictionary literal of \<open>_metadata\<close> is
  evaluated before it is stored, so the hash is over \<open>data\<close> as it was passed in; the
  dump it hashes is ASCII, and \<open>encode()\<close> leaves it as it is.
\<close>

definition data_type_hash :: "json \<Rightarrow> string" where
  "data_type_hash data = take 16 (sha256_hexdigest (dumps True data))"

text \<open>The dictionary literal of \<open>_metadata\<close>, or the error its evaluation raises.\<close>

definition data_type_metadata :: "json \<Rightarrow> py_error + json" where
  "data_type_metadata data =
     (case data of
        JObj kvs \<Rightarrow>
          (case dict_get kvs ''elements'' of
             None \<Rightarrow> Inl KeyError
           | Some elements \<Rightarrow>
               (case py_len elements of
                  Inl err \<Rightarrow> Inl err
                | Inr n \<Rightarrow>
                    Inr (JObj [(''downloaded'', JBool True),
                               (''source'', JStr ''https://hl7.org/fhir/R4/''),
                               (''elementCount'', JInt (int n)),
                               (''hash'', JStr (data_type_hash data))])))
      | _ \<Rightarrow> Inl TypeError)"

definition save_data_type :: "string \<Rightarrow> json \<Rightarrow> files \<Rightarrow> py_error + files" where
  "save_data_type type_name data fs =
     (case data_type_metadata data of
        Inl err \<Rightarrow> Inl err
      | Inr metadata \<Rightarrow>
          (case data of
             JObj kvs \<Rightarrow>
               Inr (fs(datatypes_dir_file type_name :=
                         Inr (dump_indent 0 (JObj (dict_set ''_metadata'' metadata kvs)))))
           | _ \<Rightarrow> Inl TypeError))"

section \<open>fetch\_real\_data.py: the resource index\<close>

record index_entry =
  ie_spec :: string
  ie_type :: string
  ie_baseDefinition :: "string option"
  ie_file :: string
  ie_hash :: string
  ie_elementCount :: int
  ie_mustSupportCount :: "int option"
  ie_kind :: "string option"
  ie_lastModified :: string

record resource_index =
  ri_byName :: "(string \<times> index_entry) list"
  ri_bySpec :: "(string \<times> string list) list"
  ri_byType :: "(string \<times> string list) list"
  ri_statistics :: "(string \<times> int) list"

text \<open>\<open>d[k].append(x)\<close> for a key the dictionary has.\<close>

definition append_at :: "string \<Rightarrow> 'a \<Rightarrow> (string \<times> 'a list) list \<Rightarrow> (string \<times> 'a list) list" where
  "append_at k x d = map (\<lambda>(k', xs). if k' = k then (k', xs @ [x]) else (k', xs)) d"

text \<open>The entry written for a FHIR resource (first loop of \<open>generate_resource_index\<close>).\<close>

definition fhir_index_entry :: "files \<Rightarrow> string \<Rightarrow> processed \<Rightarrow> index_entry" where
  "fhir_index_entry fs name data =
     \<lparr>ie_spec = ''fhir-r4'',
      ie_type = ''resource'',
      ie_baseDefinition = None,
      ie_file = ''fhir-r4/resources/'' @ name @ ''.json'',
      ie_hash = calculate_file_hash fs (fhir_dir_file name),
      ie_elementCount = int (length (p_elements data)),
      ie_mustSupportCount = None,
      ie_kind = None,
      ie_lastModified = p_date data\<rparr>"

text \<open>The entry written for a US Core profile (second loop).\<close>

definition us_core_index_entry :: "files \<Rightarrow> string \<Rightarrow> processed \<Rightarrow> index_entry" where
  "us_core_index_entry fs name data =
     \<lparr>ie_spec = ''us-core-stu6.1'',
      ie_type = ''profile'',
      ie_baseDefinition = Some (last_segment CHR ''/'' (p_baseDefinition data)),
      ie_file = ''us-core-stu6.1/profiles/'' @ name @ ''.json'',
      ie_hash = calculate_file_hash fs (us_core_dir_file name),
      ie_elementCount = int (length (p_elements data)),
      ie_mustSupportCount = Some (int (get_or (p_mustSupportCount data) 0)),
      ie_kind = None,
      ie_lastModified = p_date data\<rparr>"

fun index_fhir_resources ::
  "files \<Rightarrow> (string \<times> processed) list \<Rightarrow> resource_index \<Rightarrow> resource_index" where
  "index_fhir_resources fs [] resource_index = resource_index"
| "index_fhir_resources fs ((name, data) # rest) resource_index =
     index_fhir_resources fs rest
       (resource_index
          \<lparr>ri_byName := dict_set name (fhir_index_entry fs name data) (ri_byName resource_index),
           ri_bySpec := append_at ''fhir-r4'' name (ri_bySpec resource_index),
           ri_byType := append_at ''resource'' name (ri_byType resource_index)\<rparr>)"

fun index_us_core_profiles ::
  "files \<Rightarrow> (string \<times> processed) list \<Rightarrow> resource_index \<Rightarrow> resource_index" where
  "index_us_core_profiles fs [] resource_index = resource_index"
| "index_us_core_profiles fs ((name, data) # rest) resource_index =
     index_us_core_profiles fs rest
       (resource_index
          \<lparr>ri_byName := dict_set name (us_core_index_entry fs name data) (ri_byName resource_index),
           ri_bySpec := append_at ''us-core-stu6.1'' name (ri_bySpec resource_index),
           ri_byType := append_at ''profile'' name (ri_byType resource_index)\<rparr>)"

text \<open>
  \<open>FHIRDataFetcher.generate_resource_index\<close>: the value written to
  \<open>index/resources.json\<close>.
\<close>

definition generate_resource_index :: "fetcher \<Rightarrow> files \<Rightarrow> resource_index" where
  "generate_resource_index self fs =
     (let resource_index =
            \<lparr>ri_byName = [],
             ri_bySpec = [(''fhir-r4'', []), (''us-core-stu6.1'', [])],
             ri_byType = [(''resource'', []), (''profile'', [])],
             ri_statistics = []\<rparr>;
          resource_index = index_fhir_resources fs (fhir_resources self) resource_index;
          resource_index = index_us_core_profiles fs (us_core_profiles self) resource_index
      in resource_index
           \<lparr>ri_statistics :=
              [(''totalResources'', int (length (fhir_resources self)) + int (length (us_core_profiles self))),
               (''fhirResources'', int (length (fhir_resources self))),
               (''usCoreProfiles'', int (length (us_core_profiles self))),
               (''totalElements'',
                  sum_list (map (\<lambda>data. int (length (p_elements data)))
                    (dict_values (dict_merge (fhir_resources self) (us_core_profiles self)))))]\<rparr>)"

section \<open>fetch\_real\_data.py: the element index\<close>

text \<open>
  \<open>types\<close> is a Python set, written out by \<open>list(set)\<close> in an order Python does not
  fix; it is kept as a set.
\<close>

record by_name_entry =
  bn_resources :: "string list"
  bn_frequency :: nat
  bn_types :: "string set"
  bn_commonPaths :: "string list"

record by_path_entry =
  bp_cardinality :: string
  bp_type :: string
  bp_mustSupport :: bool
  bp_binding :: "binding_info option"
  bp_isModifier :: bool
  bp_isSummary :: bool

record type_usage =
  tu_frequency :: nat
  tu_elements :: "string list"

record element_index =
  ei_byName :: "(string \<times> by_name_entry) list"
  ei_byPath :: "(string \<times> by_path_entry) list"
  ei_searchTerms :: "(string \<times> string list) list"
  ei_mustSupportElements :: "(string \<times> string list) list"
  ei_dataTypeUsage :: "(string \<times> type_usage) list"
  ei_constraints :: "(string \<times> constraint_info) list"

text \<open>\<open>if k not in d: d[k] = v\<close>\<close>

definition set_default :: "'k \<Rightarrow> 'v \<Rightarrow> ('k \<times> 'v) list \<Rightarrow> ('k \<times> 'v) list" where
  "set_default k v d = (if dict_get d k = None then dict_set k v d else d)"

text \<open>\<open>d[k] = f(d[k])\<close> for a key the dictionary has.\<close>

definition update_at :: "'k \<Rightarrow> ('v \<Rightarrow> 'v) \<Rightarrow> ('k \<times> 'v) list \<Rightarrow> ('k \<times> 'v) list" where
  "update_at k f d = map (\<lambda>(k', v). if k' = k then (k', f v) else (k', v)) d"

text \<open>The loop over the constraints of one element.\<close>

fun index_constraints ::
  "constraint_info list \<Rightarrow> (string \<times> constraint_info) list \<Rightarrow> (string \<times> constraint_info) list" where
  "index_constraints [] d = d"
| "index_constraints (constraint # rest) d =
     (case ci_key constraint of
        None \<Rightarrow> index_constraints rest d
      | Some key \<Rightarrow>
          (if key = [] then index_constraints rest d
           else index_constraints rest (dict_set key constraint d)))"

text \<open>The body of the inner loop of \<open>generate_element_index\<close>, for one element.\<close>

definition index_element :: "string \<Rightarrow> processed \<Rightarrow> element_info \<Rightarrow> element_index \<Rightarrow> element_index" where
  "index_element resource_name resource_data element element_index =
     (let element_name = el_name element;
          element_path = el_path element;
          element_type = el_type element;
          byName =
            (if element_name \<noteq> [] then
               update_at element_name
                 (\<lambda>e. e\<lparr>bn_resources := bn_resources e @ [resource_name],
                         bn_frequency := bn_frequency e + 1,
                         bn_types := insert element_type (bn_types e),
                         bn_commonPaths := bn_commonPaths e @ [element_path]\<rparr>)
                 (set_default element_name
                    \<lparr>bn_resources = [], bn_frequency = 0, bn_types = {}, bn_commonPaths = []\<rparr>
                    (ei_byName element_index))
             else ei_byName element_index);
          byPath =
            (if element_path \<noteq> [] then
               dict_set element_path
                 \<lparr>bp_cardinality = el_cardinality element,
                  bp_type = element_type,
                  bp_mustSupport = get_or (el_mustSupport element) False,
                  bp_binding = el_binding element,
                  bp_isModifier = el_isModifier element,
                  bp_isSummary = el_isSummary element\<rparr>
                 (ei_byPath element_index)
             else ei_byPath element_index);
          mustSupportElements =
            (if el_mustSupport element = Some True \<and> p_type resource_data = ''profile'' then
               append_at resource_name element_name
                 (set_default resource_name [] (ei_mustSupportElements element_index))
             else ei_mustSupportElements element_index);
          dataTypeUsage =
            (if element_type \<noteq> ''unknown'' then
               update_at element_type
                 (\<lambda>u. u\<lparr>tu_frequency := tu_frequency u + 1,
                         tu_elements := tu_elements u @ [element_path]\<rparr>)
                 (set_default element_type \<lparr>tu_frequency = 0, tu_elements = []\<rparr>
                    (ei_dataTypeUsage element_index))
             else ei_dataTypeUsage element_index)
      in element_index
           \<lparr>ei_byName := byName,
            ei_byPath := byPath,
            ei_mustSupportElements := mustSupportElements,
            ei_dataTypeUsage := dataTypeUsage,
            ei_constraints := index_constraints (el_constraints element) (ei_constraints element_index)\<rparr>)"

fun index_elements :: "string \<Rightarrow> processed \<Rightarrow> element_info list \<Rightarrow> element_index \<Rightarrow> element_index" where
  "index_elements resource_name resource_data [] element_index = element_index"
| "index_elements resource_name resource_data (element # elements) element_index =
     index_elements resource_name resource_data elements
       (index_element resource_name resource_data element element_index)"

fun index_all_data :: "(string \<times> processed) list \<Rightarrow> element_index \<Rightarrow> element_index" where
  "index_all_data [] element_index = element_index"
| "index_all_data ((resource_name, resource_data) # rest) element_index =
     index_all_data rest
       (index_elements resource_name resource_data (p_elements resource_data) element_index)"

text \<open>\<open>FHIRDataFetcher.generate_search_terms\<close>\<close>

definition term_mappings :: "(string \<times> string list) list" where
  "term_mappings =
    [(''patient'', [''Patient'']),
     (''demographics'', [''Patient'']),
     (''observation'', [''Observation'']),
     (''vital'', [''Observation'']),
     (''lab'', [''Observation'']),
     (''practitioner'', [''Practitioner'']),
     (''provider'', [''Practitioner'']),
     (''doctor'', [''Practitioner'']),
     (''organization'', [''Organization'']),
     (''facility'', [''Organization'']),
     (''medication'', [''Medication'', ''MedicationRequest'']),
     (''allergy'', [''AllergyIntolerance'']),
     (''condition'', [''Condition'']),
     (''diagnosis'', [''Condition'']),
     (''procedure'', [''Procedure'']),
     (''encounter'', [''Encounter'']),
     (''visit'', [''Encounter''])]"

definition generate_search_terms :: "(string \<times> processed) list \<Rightarrow> (string \<times> string list) list" where
  "generate_search_terms all_data =
     map (\<lambda>(term, resources).
            (term, resources @
               map (\<lambda>resource. ''USCore'' @ resource)
                 (filter (\<lambda>resource. dict_get all_data (''USCore'' @ resource) \<noteq> None) resources)))
       term_mappings"

text \<open>
  \<open>FHIRDataFetcher.generate_element_index\<close>: the value written to
  \<open>index/elements.json\<close>.
\<close>

definition generate_element_index :: "fetcher \<Rightarrow> element_index" where
  "generate_element_index self =
     (let all_data = dict_merge (fhir_resources self) (us_core_profiles self);
          element_index =
            index_all_data all_data
              \<lparr>ei_byName = [], ei_byPath = [], ei_searchTerms = [],
               ei_mustSupportElements = [], ei_dataTypeUsage = [], ei_constraints = []\<rparr>
      in element_index\<lparr>ei_searchTerms := generate_search_terms all_data\<rparr>)"

section \<open>update\_datatypes\_index.py\<close>

text \<open>
  A data type file as \<open>update_indexes\<close> reads it: the keys \<open>_metadata\<close>, its \<open>hash\<close>
  and \<open>elementCount\<close> are read with \<open>[...]\<close> and raise KeyError when absent; \<open>kind\<close>
  has a default. Of the master index only \<open>stats\<close> is touched.
\<close>

record datatype_metadata =
  md_hash :: "string option"
  md_elementCount :: "int option"

record datatype_data =
  dd_metadata :: "datatype_metadata option"
  dd_kind :: "string option"

record master_index =
  mi_stats :: "(string \<times> int) list"

text \<open>The first loop: one \<open>byName\<close> entry for each file, in the order of the glob.\<close>

fun add_data_types ::
  "(string \<times> datatype_data) list \<Rightarrow> (string \<times> index_entry) list \<Rightarrow>
   py_error + (string \<times> index_entry) list" where
  "add_data_types [] byName = Inr byName"
| "add_data_types ((datatype_name, datatype_data) # rest) byName =
     (case dd_metadata datatype_data of
        None \<Rightarrow> Inl KeyError
      | Some metadata \<Rightarrow>
          (case md_hash metadata of
             None \<Rightarrow> Inl KeyError
           | Some hash \<Rightarrow>
               (case md_elementCount metadata of
                  None \<Rightarrow> Inl KeyError
                | Some elementCount \<Rightarrow>
                    add_data_types rest
                      (dict_set datatype_name
                         \<lparr>ie_spec = ''fhir-r4'',
                          ie_type = ''datatype'',
                          ie_baseDefinition = None,
                          ie_file = ''fhir-r4/datatypes/'' @ datatype_name @ ''.json'',
                          ie_hash = ''sha256:'' @ hash,
                          ie_elementCount = elementCount,
                          ie_mustSupportCount = None,
                          ie_kind = Some (get_or (dd_kind datatype_data) ''complex-type''),
                          ie_lastModified = ''manual''\<rparr>
                         byName))))"

text \<open>The loops that add each name to a list unless it is there.\<close>

fun add_missing :: "string list \<Rightarrow> string list \<Rightarrow> string list" where
  "add_missing [] names = names"
| "add_missing (datatype_name # rest) names =
     (if datatype_name \<notin> set names then add_missing rest (names @ [datatype_name])
      else add_missing rest names)"

text \<open>\<open>d[k] += n\<close>: KeyError when \<open>k\<close> is not a key.\<close>

definition increment :: "string \<Rightarrow> int \<Rightarrow> (string \<times> int) list \<Rightarrow> py_error + (string \<times> int) list" where
  "increment k n d =
     (case dict_get d k of
        None \<Rightarrow> Inl KeyError
      | Some v \<Rightarrow> Inr (dict_set k (v + n) d))"

text \<open>
  \<open>update_indexes\<close>, from the two indexes it loads and the data type files its three
  globs list (name and content) to the two indexes it saves.
\<close>

definition update_indexes ::
  "resource_index \<Rightarrow> master_index \<Rightarrow> (string \<times> datatype_data) list \<Rightarrow>
   py_error + resource_index \<times> master_index" where
  "update_indexes resources_index master_index datatype_files =
     (case add_data_types datatype_files (ri_byName resources_index) of
        Inl err \<Rightarrow> Inl err
      | Inr byName \<Rightarrow>
          (let data_types_added = int (length datatype_files);
               names = map fst datatype_files;
               bySpec = set_default ''fhir-r4'' [] (ri_bySpec resources_index);
               bySpec = update_at ''fhir-r4'' (\<lambda>l. sort (add_missing names l)) bySpec;
               byType = set_default ''datatype'' [] (ri_byType resources_index);
               byType = update_at ''datatype'' (\<lambda>l. sort (add_missing names l)) byType
           in case increment ''totalResources'' data_types_added (ri_statistics resources_index) of
                Inl err \<Rightarrow> Inl err
              | Inr statistics \<Rightarrow>
                  (case increment ''totalResources'' data_types_added (mi_stats master_index) of
                     Inl err \<Rightarrow> Inl err
                   | Inr stats \<Rightarrow>
                       Inr (\<lparr>ri_byName = byName,
                             ri_bySpec = bySpec,
                             ri_byType = byType,
                             ri_statistics = dict_set ''dataTypes'' data_types_added statistics\<rparr>,
                            \<lparr>mi_stats = dict_set ''dataTypesCreated'' data_types_added stats\<rparr>))))"

section \<open>Example documents\<close>

text \<open>A raw element with the keys \<open>path\<close>, \<open>min\<close>, \<open>max\<close> and \<open>mustSupport\<close> only.\<close>

definition raw_element_of ::
  "string option \<Rightarrow> int option \<Rightarrow> string option \<Rightarrow> bool option \<Rightarrow> raw_element" where
  "raw_element_of path mn mx ms =
     \<lparr>raw_id = None, raw_path = path, raw_short = None, raw_definition = None,
      raw_min = mn, raw_max = mx, raw_type = None, raw_isModifier = None,
      raw_isSummary = None, raw_binding = None, raw_constraint = None,
      raw_mapping = None, raw_mustSupport = ms\<rparr>"

text \<open>
  A raw document with \<open>resourceType\<close> and, of the keys the scripts read, \<open>name\<close>,
  \<open>type\<close>, \<open>date\<close>, \<open>snapshot\<close> and \<open>differential\<close> only.
\<close>

definition structure_def_of ::
  "string \<Rightarrow> string \<Rightarrow> string \<Rightarrow> raw_element list option option \<Rightarrow>
   raw_element list option option \<Rightarrow> structure_def" where
  "structure_def_of name ty date snapshot differential =
     \<lparr>sd_id = None, sd_name = Some name, sd_title = None, sd_description = None,
      sd_type = Some ty, sd_url = None, sd_version = None, sd_status = None,
      sd_date = Some date, sd_kind = None, sd_abstract = None, sd_baseDefinition = None,
      sd_derivation = None, sd_fhirVersion = None,
      sd_snapshot = snapshot, sd_differential = differential, sd_other_keys = True\<rparr>"

text \<open>The two elements of the profile scenario, and the root element of their resource.\<close>

definition patient_id :: raw_element where
  "patient_id = raw_element_of (Some ''Patient.id'') (Some 0) (Some ''1'') (Some False)"

definition patient_name :: raw_element where
  "patient_name = raw_element_of (Some ''Patient.name'') (Some 1) (Some ''*'') (Some True)"

definition patient_root :: raw_element where
  "patient_root = raw_element_of (Some ''Patient'') (Some 0) (Some ''*'') None"

definition observation_root :: raw_element where
  "observation_root = raw_element_of (Some ''Observation'') None None None"

definition observation_status :: raw_element where
  "observation_status = raw_element_of (Some ''Observation.status'') (Some 1) (Some ''1'') None"

text \<open>An element whose \<open>max\<close> is neither \<open>*\<close> nor a number, and has no \<open>min\<close>.\<close>

definition observation_note :: raw_element where
  "observation_note = raw_element_of (Some ''Observation.note'') None (Some ''abc'') None"

text \<open>The US Core patient profile: its catalog name is not its resource type.\<close>

definition us_core_patient :: structure_def where
  "us_core_patient =
     structure_def_of ''USCorePatientProfile'' ''Patient'' ''2023-10-17''
       (Some (Some [patient_root, patient_id, patient_name])) None"

text \<open>A profile document named \<open>Patient\<close>, with the two elements of the scenario.\<close>

definition patient_profile :: structure_def where
  "patient_profile =
     structure_def_of ''Patient'' ''Patient'' ''2023-10-17''
       (Some (Some [patient_id, patient_name])) None"

text \<open>A document with both element lists: the differential has one of the snapshot's.\<close>

definition observation_both :: structure_def where
  "observation_both =
     structure_def_of ''Observation'' ''Observation'' ''2019-11-01''
       (Some (Some [observation_root, observation_status, observation_note]))
       (Some (Some [observation_status]))"

text \<open>Two documents fetched under the same resource name, and their differences.\<close>

definition patient_first :: structure_def where
  "patient_first =
     structure_def_of ''Patient'' ''Patient'' ''2019-11-01''
       (Some (Some [patient_root, patient_id])) None"

definition patient_second :: structure_def where
  "patient_second =
     structure_def_of ''Patient'' ''Patient'' ''2023-10-17''
       (Some (Some [patient_root, patient_id, patient_name])) None"

text \<open>A data directory in which no file can be read.\<close>

definition no_files :: files where
  "no_files = (\<lambda>path. Inl OSError)"

text \<open>The fetcher after the download of the profile document named \<open>Patient\<close>.\<close>

definition after_profile_download :: fetcher where
  "after_profile_download =
     (case download_us_core_profiles [(''Patient'', Some patient_profile)] new_fetcher of
        Inl err \<Rightarrow> snd err
      | Inr self \<Rightarrow> self)"

text \<open>
  An index of one resource with its master index, and the data type file
  \<open>Extension.json\<close> with three elements.
\<close>

definition index_before :: resource_index where
  "index_before =
     generate_resource_index
       (download_fhir_resources [(''Patient'', Some patient_first)] new_fetcher) no_files"

definition master_before :: master_index where
  "master_before = \<lparr>mi_stats = [(''totalResources'', 1), (''totalElements'', 1)]\<rparr>"

definition extension_file :: "string \<times> datatype_data" where
  "extension_file =
     (''Extension'',
      \<lparr>dd_metadata = Some \<lparr>md_hash = Some ''0123456789abcdef'', md_elementCount = Some 3\<rparr>,
       dd_kind = Some ''complex-type''\<rparr>)"

section \<open>The content of an entry, whatever the order of its keys\<close>

text \<open>
  Two JSON values have the same content when they differ at most in the order in which
  their objects, at any depth, list their keys: when they have the same canonical form,
  in which every object lists its keys in sorted order.
\<close>

fun canonical :: "json \<Rightarrow> json" where
  "canonical (JList xs) = JList (map canonical xs)"
| "canonical (JObj kvs) = JObj (sort_key fst (map (\<lambda>kv. (fst kv, canonical (snd kv))) kvs))"
| "canonical v = v"

definition same_content :: "json \<Rightarrow> json \<Rightarrow> bool" where
  "same_content a b \<longleftrightarrow> canonical a = canonical b"

text \<open>An entry written with its keys in two orders.\<close>

definition entry_name_first :: json where
  "entry_name_first = JObj [(''name'', JStr ''Patient''), (''type'', JStr ''resource'')]"

definition entry_type_first :: json where
  "entry_type_first = JObj [(''type'', JStr ''resource''), (''name'', JStr ''Patient'')]"

text \<open>
  The empty document, a second version of the US Core patient profile, a document with a
  snapshot only, and an element without a path.
\<close>

definition empty_document :: structure_def where
  "empty_document =
     \<lparr>sd_id = None, sd_name = None, sd_title = None, sd_description = None,
      sd_type = None, sd_url = None, sd_version = None, sd_status = None,
      sd_date = None, sd_kind = None, sd_abstract = None, sd_baseDefinition = None,
      sd_derivation = None, sd_fhirVersion = None,
      sd_snapshot = None, sd_differential = None, sd_other_keys = False\<rparr>"

definition us_core_patient_second :: structure_def where
  "us_core_patient_second =
     structure_def_of ''USCorePatientProfile'' ''Patient'' ''2024-05-01''
       (Some (Some [patient_root, patient_name])) None"

definition no_path_element :: raw_element where
  "no_path_element = raw_element_of None None None None"

definition observation_snapshot :: structure_def where
  "observation_snapshot =
     structure_def_of ''Observation'' ''Observation'' ''2019-11-01''
       (Some (Some [observation_root, no_path_element, observation_status])) None"

text \<open>A data type entry written with its keys, and those of its element, in two orders.\<close>

definition period_name_first :: json where
  "period_name_first =
     JObj [(''name'', JStr ''Period''),
           (''kind'', JStr ''complex-type''),
           (''elements'', JList [JObj [(''path'', JStr ''Period.start''), (''name'', JStr ''start'')]])]"

definition period_elements_first :: json where
  "period_elements_first =
     JObj [(''elements'', JList [JObj [(''name'', JStr ''start''), (''path'', JStr ''Period.start'')]]),
           (''kind'', JStr ''complex-type''),
           (''name'', JStr ''Period'')]"

text \<open>
  The fetcher after a run in which \<open>Patient\<close> is fetched four times as a resource (two
  documents, an empty document and a failed fetch), two profile names are cleaned to
  \<open>USCorePatient\<close>, and a profile is named \<open>Patient\<close>.
\<close>

definition after_both_downloads :: fetcher where
  "after_both_downloads =
     (case download_us_core_profiles
             [(''us-core-patient'', Some us_core_patient),
              (''us-core-Patient'', Some us_core_patient_second),
              (''Patient'', Some patient_profile)]
             (download_fhir_resources
                [(''Patient'', Some patient_first), (''Patient'', Some patient_second),
                 (''Patient'', Some empty_document), (''Patient'', None),
                 (''Observation'', Some observation_both)] new_fetcher) of
        Inl err \<Rightarrow> snd err
      | Inr self \<Rightarrow> self)"

section \<open>Properties of element normalisation\<close>

text \<open>Both element loops treat a list piecewise.\<close>

lemma process_elements_append:
  "process_elements (xs @ ys) p = process_elements xs p @ process_elements ys p"
  by (induction xs) (simp_all add: Let_def)

lemma dl_process_elements_append:
  "dl_process_elements (xs @ ys) = dl_process_elements xs @ dl_process_elements ys"
  by (induction xs) (simp_all split: option.splits)

lemma dl_process_profile_elements_append:
  "dl_process_profile_elements (xs @ ys) = dl_process_profile_elements xs @ dl_process_profile_elements ys"
  by (induction xs) (simp_all split: option.splits)

lemma skipped_path:
  assumes "raw_path element = None \<or> (\<exists>path. raw_path element = Some path \<and> CHR ''.'' \<notin> set path)"
  shows "get_or (raw_path element) '''' = [] \<or> CHR ''.'' \<notin> set (get_or (raw_path element) '''')"
  using assms by (auto simp: get_or_def)

lemma make_element_info_fields:
  "el_path (make_element_info e path p) = path"
  "el_name (make_element_info e path p) = last_segment CHR ''.'' path"
  "el_min (make_element_info e path p) = get_or (raw_min e) 0"
  "el_max (make_element_info e path p) = get_or (raw_max e) ''1''"
  "el_cardinality (make_element_info e path p) = str_int (get_or (raw_min e) 0) @ ''..'' @ get_or (raw_max e) ''1''"
  "el_mustSupport (make_element_info e path p) = (if p then Some (get_or (raw_mustSupport e) False) else None)"
  by (simp_all add: make_element_info_def)

text \<open>Every record of \<open>process_elements\<close> comes from an element with that dotted path.\<close>

lemma process_elements_source:
  "r \<in> set (process_elements es p) \<Longrightarrow>
     \<exists>e \<in> set es. raw_path e = Some (el_path r) \<and> CHR ''.'' \<in> set (el_path r)
        \<and> el_name r = last_segment CHR ''.'' (el_path r)"
proof (induction es)
  case Nil
  then show ?case by simp
next
  case (Cons e es)
  show ?case
  proof (cases "get_or (raw_path e) '''' = [] \<or> CHR ''.'' \<notin> set (get_or (raw_path e) '''')")
    case True
    with Cons show ?thesis by (auto simp: Let_def)
  next
    case False
    then obtain path where path: "raw_path e = Some path" "CHR ''.'' \<in> set path"
      by (cases "raw_path e") (auto simp: get_or_def)
    then have "path \<noteq> []" by auto
    with path Cons.prems have "r = make_element_info e path p \<or> r \<in> set (process_elements es p)"
      by (auto simp: Let_def get_or_def)
    then show ?thesis
    proof
      assume "r = make_element_info e path p"
      with path show ?thesis by (simp add: make_element_info_fields)
    next
      assume "r \<in> set (process_elements es p)"
      with Cons.IH show ?thesis by auto
    qed
  qed
qed

text \<open>The same for the records of \<open>download_specs.py\<close>.\<close>

lemma process_element_source:
  "process_element e = Some r \<Longrightarrow>
     raw_path e = Some (dl_path r) \<and> CHR ''.'' \<in> set (dl_path r)
     \<and> dl_name r = last_segment CHR ''.'' (dl_path r)"
  by (cases "raw_path e") (auto simp: process_element_def Let_def get_or_def split: if_splits)

lemma dl_process_elements_source:
  "r \<in> set (dl_process_elements es) \<Longrightarrow>
     \<exists>e \<in> set es. raw_path e = Some (dl_path r) \<and> CHR ''.'' \<in> set (dl_path r)
        \<and> dl_name r = last_segment CHR ''.'' (dl_path r)"
proof (induction es)
  case Nil
  then show ?case by simp
next
  case (Cons e es)
  from Cons.prems have "process_element e = Some r \<or> r \<in> set (dl_process_elements es)"
    by (auto split: if_splits option.splits)
  then show ?case
  proof
    assume "process_element e = Some r"
    then show ?thesis
      using process_element_source [of e r] by simp
  next
    assume "r \<in> set (dl_process_elements es)"
    with Cons.IH show ?thesis by auto
  qed
qed

lemma dl_process_profile_elements_source:
  "r \<in> set (dl_process_profile_elements es) \<Longrightarrow>
     \<exists>e \<in> set es. raw_path e = Some (dl_path r) \<and> CHR ''.'' \<in> set (dl_path r)
        \<and> dl_name r = last_segment CHR ''.'' (dl_path r)"
proof (induction es)
  case Nil
  then show ?case by simp
next
  case (Cons e es)
  from Cons.prems have
    "(\<exists>r'. process_element e = Some r' \<and> dl_path r = dl_path r' \<and> dl_name r = dl_name r')
     \<or> r \<in> set (dl_process_profile_elements es)"
    by (auto split: if_splits option.splits)
  then show ?case
  proof
    assume "\<exists>r'. process_element e = Some r' \<and> dl_path r = dl_path r' \<and> dl_name r = dl_name r'"
    then obtain r' where "process_element e = Some r'" "dl_path r = dl_path r'" "dl_name r = dl_name r'"
      by blast
    then show ?thesis
      using process_element_source [of e r'] by simp
  next
    assume "r \<in> set (dl_process_profile_elements es)"
    with Cons.IH show ?thesis by auto
  qed
qed

text \<open>A string without the separator is its own last segment.\<close>

lemma split_on_no_separator: "c \<notin> set s \<Longrightarrow> split_on c s = [s]"
  by (induction s) auto

text \<open>
  Claim C2 as stated fails: a \<open>max\<close> of \<open>abc\<close> raises nothing and the element is not
  skipped. Its record carries \<open>abc\<close> as \<open>max\<close> and \<open>0..abc\<close> as cardinality, in
  \<open>fetch_real_data.py\<close> and in \<open>download_specs.py\<close>.
\<close>

theorem malformed_max_is_kept:
  "map el_path (process_elements [observation_note] False) = [''Observation.note'']
   \<and> map el_max (process_elements [observation_note] False) = [''abc'']
   \<and> map el_cardinality (process_elements [observation_note] False) = [''0..abc'']
   \<and> map dl_cardinality (dl_process_elements [observation_note]) = [''0..abc'']"
  by code_simp

text \<open>
  Claim C2, amended. For every raw element with a dotted path a record is produced,
  whatever its \<open>max\<close>: a missing \<open>min\<close> gives 0, and \<open>max\<close> is copied as it is
  (so \<open>*\<close> stays \<open>*\<close>); a missing \<open>max\<close> gives \<open>1\<close> in \<open>fetch_real_data.py\<close> and
  \<open>*\<close> in \<open>download_specs.py\<close>. The cardinality is the text \<open>min..max\<close>.
\<close>

theorem cardinality_copied_verbatim:
  assumes "raw_path element = Some path" and "path \<noteq> []" and "CHR ''.'' \<in> set path"
  shows "\<exists>r d. process_elements (before @ element # after) is_profile
                = process_elements before is_profile @ r # process_elements after is_profile
            \<and> el_path r = path
            \<and> el_min r = (case raw_min element of None \<Rightarrow> 0 | Some m \<Rightarrow> m)
            \<and> el_max r = (case raw_max element of None \<Rightarrow> ''1'' | Some m \<Rightarrow> m)
            \<and> el_cardinality r = str_int (el_min r) @ ''..'' @ el_max r
            \<and> process_element element = Some d
            \<and> dl_path d = path
            \<and> dl_cardinality d
                = str_int (case raw_min element of None \<Rightarrow> 0 | Some m \<Rightarrow> m) @ ''..''
                  @ (case raw_max element of None \<Rightarrow> ''*'' | Some m \<Rightarrow> m)"
proof -
  have one: "process_elements [element] is_profile = [make_element_info element path is_profile]"
    using assms by (simp add: get_or_def Let_def)
  have pe: "process_elements (before @ element # after) is_profile
            = process_elements before is_profile @ make_element_info element path is_profile
              # process_elements after is_profile"
    using process_elements_append [of before "[element] @ after" is_profile]
      process_elements_append [of "[element]" after is_profile] one by simp
  show ?thesis
    using assms pe
    by (simp add: make_element_info_def process_element_def get_or_def Let_def
        del: process_elements.simps)
qed

text \<open>C2 amended, at the element \<open>Observation.note\<close> with \<open>max = abc\<close> and no \<open>min\<close>.\<close>

theorem cardinality_copied_verbatim_witness:
  "\<exists>r d. process_elements [patient_id, observation_note, patient_name] True
            = process_elements [patient_id] True @ r # process_elements [patient_name] True
        \<and> el_path r = ''Observation.note''
        \<and> el_min r = 0
        \<and> el_max r = ''abc''
        \<and> el_cardinality r = str_int (el_min r) @ ''..'' @ el_max r
        \<and> process_element observation_note = Some d
        \<and> dl_path d = ''Observation.note''
        \<and> dl_cardinality d = str_int 0 @ ''..'' @ ''abc''"
proof -
  have h: "raw_path observation_note = Some ''Observation.note''"
    by (simp add: observation_note_def raw_element_of_def)
  have v: "raw_min observation_note = None" "raw_max observation_note = Some ''abc''"
    by (simp_all add: observation_note_def raw_element_of_def)
  show ?thesis
    using cardinality_copied_verbatim [OF h, of "[patient_id]" "[patient_name]" True] v
    by simp
qed

section \<open>Properties of document processing\<close>

text \<open>
  Claim C8 as stated fails: the profile \<open>us-core-patient\<close> is stored under the name
  \<open>USCorePatient\<close>, its document is named \<open>USCorePatientProfile\<close>, and its element
  paths begin with the resource type \<open>Patient\<close>.
\<close>

theorem profile_paths_keep_resource_type:
  "(case download_us_core_profiles [(''us-core-patient'', Some us_core_patient)] new_fetcher of
      Inl err \<Rightarrow> []
    | Inr self \<Rightarrow>
        map (\<lambda>(name, entry). (name, p_name entry, map el_path (p_elements entry)))
          (us_core_profiles self))
   = [(''USCorePatient'', ''USCorePatientProfile'', [''Patient.id'', ''Patient.name''])]
   \<and> take (length ''USCorePatient.'') ''Patient.id'' \<noteq> ''USCorePatient.''
   \<and> take (length ''USCorePatientProfile.'') ''Patient.id'' \<noteq> ''USCorePatientProfile.''"
  by code_simp

text \<open>
  Claim C8, amended, script by script. In \<open>fetch_real_data.py\<close>, every path of an entry
  made by \<open>process_fhir_structure_definition\<close> or \<open>process_us_core_profile\<close> is the
  path of one of the snapshot elements of its document, copied unchanged; it contains a dot,
  and the element's name is its last segment. The same holds for the records of the two
  element loops of \<open>download_specs.py\<close>. In \<open>fetch_datatypes.py\<close>, the paths of the entry
  are the paths of all the elements of the chosen list, in order, the empty string for an
  element without a path; the name is the last segment of the path, and empty for the empty
  path. (So a path begins with whatever root the document uses, and in a data type entry it
  may have no dot at all.)
\<close>

theorem element_paths_copied:
  assumes "process_fhir_structure_definition d = Some entry \<or> process_us_core_profile d = Some entry"
    and "dt_process_structure_definition d = Some data_type"
  shows "(\<forall>r \<in> set (p_elements entry).
           \<exists>e \<in> set (snapshot_elements d).
             raw_path e = Some (el_path r) \<and> CHR ''.'' \<in> set (el_path r)
             \<and> el_name r = last_segment CHR ''.'' (el_path r))
       \<and> (\<forall>r \<in> set (dl_process_elements (snapshot_elements d))
                  \<union> set (dl_process_profile_elements (snapshot_elements d)).
           \<exists>e \<in> set (snapshot_elements d).
             raw_path e = Some (dl_path r) \<and> CHR ''.'' \<in> set (dl_path r)
             \<and> dl_name r = last_segment CHR ''.'' (dl_path r))
       \<and> map dte_path (dtp_elements data_type)
         = map (\<lambda>e. get_or (raw_path e) '''') (dt_chosen_elements d)
       \<and> (\<forall>r \<in> set (dtp_elements data_type).
           dte_name r = (if dte_path r = [] then [] else last_segment CHR ''.'' (dte_path r)))"
proof -
  from assms(1) have "p_elements entry = process_elements (snapshot_elements d) False
                 \<or> p_elements entry = process_elements (snapshot_elements d) True"
    by (auto simp: process_fhir_structure_definition_def process_us_core_profile_def Let_def)
  then have one: "\<forall>r \<in> set (p_elements entry).
           \<exists>e \<in> set (snapshot_elements d).
             raw_path e = Some (el_path r) \<and> CHR ''.'' \<in> set (el_path r)
             \<and> el_name r = last_segment CHR ''.'' (el_path r)"
    using process_elements_source by metis
  have two: "\<forall>r \<in> set (dl_process_elements (snapshot_elements d))
                  \<union> set (dl_process_profile_elements (snapshot_elements d)).
           \<exists>e \<in> set (snapshot_elements d).
             raw_path e = Some (dl_path r) \<and> CHR ''.'' \<in> set (dl_path r)
             \<and> dl_name r = last_segment CHR ''.'' (dl_path r)"
    using dl_process_elements_source dl_process_profile_elements_source by blast
  from assms(2) have elems: "dtp_elements data_type = map element_data (dt_chosen_elements d)"
    by (auto simp: dt_process_structure_definition_def)
  have three: "map dte_path (dtp_elements data_type)
         = map (\<lambda>e. get_or (raw_path e) '''') (dt_chosen_elements d)"
    by (simp add: elems element_data_def)
  have four: "\<forall>r \<in> set (dtp_elements data_type).
           dte_name r = (if dte_path r = [] then [] else last_segment CHR ''.'' (dte_path r))"
    by (auto simp: elems element_data_def)
  from one two three four show ?thesis
    by (intro conjI)
qed

text \<open>
  C8 amended, at the US Core patient profile: the element \<open>Patient.name\<close> of its
  profile entry, and the three paths of its data type entry.
\<close>

theorem element_paths_copied_witness:
  "\<exists>entry data_type. process_us_core_profile us_core_patient = Some entry
      \<and> dt_process_structure_definition us_core_patient = Some data_type
      \<and> map el_path (p_elements entry) = [''Patient.id'', ''Patient.name'']
      \<and> (\<exists>e \<in> set (snapshot_elements us_core_patient).
            raw_path e = Some ''Patient.name'' \<and> CHR ''.'' \<in> set ''Patient.name''
            \<and> ''name'' = last_segment CHR ''.'' ''Patient.name'')
      \<and> map dte_path (dtp_elements data_type) = [''Patient'', ''Patient.id'', ''Patient.name'']
      \<and> map dte_path (dtp_elements data_type)
        = map (\<lambda>e. get_or (raw_path e) '''') (dt_chosen_elements us_core_patient)"
proof -
  let ?entry = "the (process_us_core_profile us_core_patient)"
  let ?data_type = "the (dt_process_structure_definition us_core_patient)"
  have e: "process_us_core_profile us_core_patient = Some ?entry"
    by (simp add: process_us_core_profile_def Let_def)
  have t: "dt_process_structure_definition us_core_patient = Some ?data_type"
    by (simp add: dt_process_structure_definition_def)
  note all = element_paths_copied [OF disjI2 [OF e] t]
  have paths: "map el_path (p_elements ?entry) = [''Patient.id'', ''Patient.name'']"
    by code_simp
  have dt_paths: "map dte_path (dtp_elements ?data_type) = [''Patient'', ''Patient.id'', ''Patient.name'']"
    by code_simp
  have len: "length (p_elements ?entry) = 2"
    by code_simp
  have path: "el_path (p_elements ?entry ! 1) = ''Patient.name''"
    by code_simp
  have name: "el_name (p_elements ?entry ! 1) = ''name''"
    by code_simp
  from len have r: "p_elements ?entry ! 1 \<in> set (p_elements ?entry)"
    by simp
  have "\<exists>e \<in> set (snapshot_elements us_core_patient).
          raw_path e = Some (el_path (p_elements ?entry ! 1))
          \<and> CHR ''.'' \<in> set (el_path (p_elements ?entry ! 1))
          \<and> el_name (p_elements ?entry ! 1) = last_segment CHR ''.'' (el_path (p_elements ?entry ! 1))"
    using bspec [OF conjunct1 [OF all] r] .
  then have found: "\<exists>e \<in> set (snapshot_elements us_core_patient).
          raw_path e = Some ''Patient.name'' \<and> CHR ''.'' \<in> set ''Patient.name''
          \<and> ''name'' = last_segment CHR ''.'' ''Patient.name''"
    by (simp only: path name)
  have copied: "map dte_path (dtp_elements ?data_type)
        = map (\<lambda>e. get_or (raw_path e) '''') (dt_chosen_elements us_core_patient)"
    using conjunct1 [OF conjunct2 [OF conjunct2 [OF all]]] .
  from e t paths found dt_paths copied show ?thesis
    by (intro exI conjI)
qed

text \<open>
  Claim C9 as stated fails for \<open>fetch_datatypes.py\<close>: with both lists present, the
  elements of the entry are those of the differential.
\<close>

theorem differential_preferred_for_data_types:
  "(case dt_process_structure_definition observation_both of
      None \<Rightarrow> []
    | Some p \<Rightarrow> map dte_path (dtp_elements p)) = [''Observation.status'']
   \<and> map raw_path (snapshot_elements observation_both)
       = [Some ''Observation'', Some ''Observation.status'', Some ''Observation.note'']"
  by code_simp

text \<open>
  Claim C9, amended. For a document with a snapshot and a differential element list,
  both processors of \<open>fetch_real_data.py\<close> take the snapshot list, and the processor of
  \<open>fetch_datatypes.py\<close> takes the differential list.
\<close>

theorem authoritative_element_list:
  assumes "sd_snapshot d = Some (Some snapshot)" and "sd_differential d = Some (Some differential)"
  shows "(\<exists>p. process_fhir_structure_definition d = Some p \<and> p_elements p = process_elements snapshot False)
       \<and> (\<exists>p. process_us_core_profile d = Some p \<and> p_elements p = process_elements snapshot True)
       \<and> (\<exists>p. dt_process_structure_definition d = Some p \<and> dtp_elements p = map element_data differential)"
  using assms
  by (simp add: process_fhir_structure_definition_def process_us_core_profile_def
      dt_process_structure_definition_def dt_chosen_elements_def snapshot_elements_def get_or_def Let_def)

text \<open>C9 amended, at a document with three snapshot elements and one differential element.\<close>

theorem authoritative_element_list_witness:
  "(\<exists>p. process_fhir_structure_definition observation_both = Some p
        \<and> p_elements p = process_elements [observation_root, observation_status, observation_note] False)
   \<and> (\<exists>p. process_us_core_profile observation_both = Some p
        \<and> p_elements p = process_elements [observation_root, observation_status, observation_note] True)
   \<and> (\<exists>p. dt_process_structure_definition observation_both = Some p
        \<and> dtp_elements p = map element_data [observation_status])"
proof -
  have s: "sd_snapshot observation_both
           = Some (Some [observation_root, observation_status, observation_note])"
    and f: "sd_differential observation_both = Some (Some [observation_status])"
    by (simp_all add: observation_both_def structure_def_of_def)
  show ?thesis
    using authoritative_element_list [OF s f] by simp
qed

section \<open>Properties of the stores and the resource index\<close>

text \<open>Storing under a key: the lookup, the keys and their distinctness.\<close>

lemma map_of_dict_set: "map_of (dict_set k v d) = (map_of d)(k \<mapsto> v)"
  by (induction d) auto

lemma keys_dict_set:
  "map fst (dict_set k v d) = (if k \<in> fst ` set d then map fst d else map fst d @ [k])"
  by (induction d) (auto simp: rev_image_eqI)

lemma distinct_dict_set: "distinct (map fst d) \<Longrightarrow> distinct (map fst (dict_set k v d))"
  by (simp add: keys_dict_set)

lemma map_of_store_loop:
  "map_of (foldl (\<lambda>d (n, data). dict_set n (f n data) d) d0 xs) name
   = (case map_of (rev xs) name of
        Some data \<Rightarrow> Some (f name data)
      | None \<Rightarrow> map_of d0 name)"
proof (induction xs arbitrary: d0)
  case Nil
  then show ?case by simp
next
  case (Cons x xs)
  obtain n data where x: "x = (n, data)" by (cases x)
  show ?case
    by (simp add: x Cons.IH map_of_dict_set map_add_def split: option.splits)
qed

lemma distinct_store_loop:
  "distinct (map fst d0) \<Longrightarrow>
   distinct (map fst (foldl (\<lambda>d (n, data). dict_set n (f n data) d) d0 xs))"
  by (induction xs arbitrary: d0) (auto simp: distinct_dict_set)

lemma map_of_dict_merge:
  "map_of (dict_merge a b) name
   = (case map_of (rev b) name of Some v \<Rightarrow> Some v | None \<Rightarrow> map_of a name)"
  unfolding dict_merge_def by (rule map_of_store_loop)

lemma distinct_dict_merge:
  "distinct (map fst a) \<Longrightarrow> distinct (map fst (dict_merge a b))"
  unfolding dict_merge_def by (rule distinct_store_loop)

lemma map_of_rev_distinct:
  "distinct (map fst xs) \<Longrightarrow> map_of (rev xs) = map_of xs"
  by (rule iffD2 [OF map_of_inject_set]) (simp_all add: rev_map [symmetric])

text \<open>The download loop of the FHIR resources.\<close>

lemma download_fhir_resources_append:
  "download_fhir_resources (xs @ ys) s = download_fhir_resources ys (download_fhir_resources xs s)"
  by (induction xs arbitrary: s) (auto split: option.splits)

lemma download_fhir_resources_us_core:
  "us_core_profiles (download_fhir_resources b s) = us_core_profiles s"
  by (induction b arbitrary: s) (auto split: option.splits)

lemma download_fhir_resources_distinct:
  "distinct (map fst (fhir_resources s)) \<Longrightarrow>
   distinct (map fst (fhir_resources (download_fhir_resources b s)))"
  by (induction b arbitrary: s) (auto split: option.splits simp: distinct_dict_set)

lemma download_fhir_resources_other:
  "name \<notin> fst ` {x \<in> set b. \<exists>doc. snd x = Some doc \<and> \<not> document_is_empty doc} \<Longrightarrow>
   map_of (fhir_resources (download_fhir_resources b s)) name = map_of (fhir_resources s) name"
proof (induction b arbitrary: s)
  case Nil
  then show ?case by simp
next
  case (Cons x b)
  obtain n fetched where x: "x = (n, fetched)" by (cases x)
  from Cons.prems have rest:
    "name \<notin> fst ` {x \<in> set b. \<exists>doc. snd x = Some doc \<and> \<not> document_is_empty doc}"
    by auto
  show ?case
  proof (cases "\<exists>doc. fetched = Some doc \<and> \<not> document_is_empty doc")
    case True
    with Cons.prems x have "n \<noteq> name"
      by force
    with True show ?thesis
      by (auto simp: x Cons.IH [OF rest] map_of_dict_set split: option.splits)
  next
    case False
    then show ?thesis
      by (cases fetched) (auto simp: x Cons.IH [OF rest])
  qed
qed

text \<open>The download loop of the US Core profiles, when it returns.\<close>

lemma structure_def_of_not_empty:
  "\<not> document_is_empty (structure_def_of name ty date snapshot differential)"
  by (simp add: document_is_empty_def structure_def_of_def)

lemma download_us_core_profiles_append:
  "download_us_core_profiles (xs @ ys) s
   = (case download_us_core_profiles xs s of
        Inl err \<Rightarrow> Inl err
      | Inr m \<Rightarrow> download_us_core_profiles ys m)"
  by (induction xs arbitrary: s) (auto split: option.splits sum.splits)

lemma download_us_core_profiles_fhir:
  "download_us_core_profiles b s = Inr s' \<Longrightarrow> fhir_resources s' = fhir_resources s"
  by (induction b arbitrary: s) (auto split: option.splits sum.splits if_splits)

lemma download_us_core_profiles_distinct:
  "download_us_core_profiles b s = Inr s' \<Longrightarrow> distinct (map fst (us_core_profiles s)) \<Longrightarrow>
   distinct (map fst (us_core_profiles s'))"
  by (induction b arbitrary: s) (auto split: option.splits sum.splits if_splits simp: distinct_dict_set)

lemma download_us_core_profiles_other:
  "download_us_core_profiles b s = Inr s' \<Longrightarrow>
   Inr name \<notin> (\<lambda>x. clean_profile_name (fst x))
      ` {x \<in> set b. \<exists>doc. snd x = Some doc \<and> \<not> document_is_empty doc} \<Longrightarrow>
   map_of (us_core_profiles s') name = map_of (us_core_profiles s) name"
proof (induction b arbitrary: s)
  case Nil
  then show ?case by simp
next
  case (Cons x b)
  obtain n fetched where x: "x = (n, fetched)" by (cases x)
  from Cons.prems(2) have rest:
    "Inr name \<notin> (\<lambda>x. clean_profile_name (fst x))
      ` {x \<in> set b. \<exists>doc. snd x = Some doc \<and> \<not> document_is_empty doc}"
    by auto
  show ?case
  proof (cases "\<exists>doc. fetched = Some doc \<and> \<not> document_is_empty doc")
    case True
    then obtain doc where doc: "fetched = Some doc" "\<not> document_is_empty doc"
      by blast
    with Cons.prems(2) x have other: "clean_profile_name n \<noteq> Inr name"
      by force
    obtain entry where entry: "process_us_core_profile doc = Some entry"
      by (simp add: process_us_core_profile_def Let_def)
    from Cons.prems(1) doc entry obtain clean_name where
      clean: "clean_profile_name n = Inr clean_name"
      and run: "download_us_core_profiles b
                  (s\<lparr>us_core_profiles := dict_set clean_name entry (us_core_profiles s),
                     us_core_profiles_downloaded := us_core_profiles_downloaded s + 1\<rparr>) = Inr s'"
      by (cases "clean_profile_name n") (simp_all add: x)
    from other clean have "clean_name \<noteq> name"
      by simp
    with Cons.IH [OF run rest] show ?thesis
      by (simp add: map_of_dict_set)
  next
    case False
    with Cons.prems(1) have "download_us_core_profiles b s = Inr s'"
      by (cases fetched) (auto simp: x)
    then show ?thesis
      using rest by (rule Cons.IH)
  qed
qed

text \<open>What \<open>generate_resource_index\<close> writes, field by field.\<close>

lemma index_fhir_resources_byName:
  "ri_byName (index_fhir_resources fs xs idx)
   = foldl (\<lambda>d (n, data). dict_set n (fhir_index_entry fs n data) d) (ri_byName idx) xs"
  by (induction xs arbitrary: idx) auto

lemma index_us_core_profiles_byName:
  "ri_byName (index_us_core_profiles fs xs idx)
   = foldl (\<lambda>d (n, data). dict_set n (us_core_index_entry fs n data) d) (ri_byName idx) xs"
  by (induction xs arbitrary: idx) auto

lemma index_fhir_resources_lists:
  "ri_bySpec idx = [(''fhir-r4'', a), (''us-core-stu6.1'', b)] \<Longrightarrow>
   ri_byType idx = [(''resource'', c), (''profile'', e)] \<Longrightarrow>
   ri_bySpec (index_fhir_resources fs xs idx) = [(''fhir-r4'', a @ map fst xs), (''us-core-stu6.1'', b)]
   \<and> ri_byType (index_fhir_resources fs xs idx) = [(''resource'', c @ map fst xs), (''profile'', e)]"
  by (induction xs arbitrary: idx a c) (auto simp: append_at_def)

lemma index_us_core_profiles_lists:
  "ri_bySpec idx = [(''fhir-r4'', a), (''us-core-stu6.1'', b)] \<Longrightarrow>
   ri_byType idx = [(''resource'', c), (''profile'', e)] \<Longrightarrow>
   ri_bySpec (index_us_core_profiles fs xs idx) = [(''fhir-r4'', a), (''us-core-stu6.1'', b @ map fst xs)]
   \<and> ri_byType (index_us_core_profiles fs xs idx) = [(''resource'', c), (''profile'', e @ map fst xs)]"
  by (induction xs arbitrary: idx b e) (auto simp: append_at_def)

lemma generate_resource_index_lists:
  "ri_bySpec (generate_resource_index self fs)
     = [(''fhir-r4'', map fst (fhir_resources self)), (''us-core-stu6.1'', map fst (us_core_profiles self))]"
  "ri_byType (generate_resource_index self fs)
     = [(''resource'', map fst (fhir_resources self)), (''profile'', map fst (us_core_profiles self))]"
proof -
  let ?i0 = "\<lparr>ri_byName = [], ri_bySpec = [(''fhir-r4'', []), (''us-core-stu6.1'', [])],
              ri_byType = [(''resource'', []), (''profile'', [])], ri_statistics = []\<rparr>"
  let ?i1 = "index_fhir_resources fs (fhir_resources self) ?i0"
  have 1: "ri_bySpec ?i1 = [(''fhir-r4'', [] @ map fst (fhir_resources self)), (''us-core-stu6.1'', [])]
         \<and> ri_byType ?i1 = [(''resource'', [] @ map fst (fhir_resources self)), (''profile'', [])]"
    by (rule index_fhir_resources_lists) simp_all
  have 2: "ri_bySpec (index_us_core_profiles fs (us_core_profiles self) ?i1)
             = [(''fhir-r4'', [] @ map fst (fhir_resources self)), (''us-core-stu6.1'', [] @ map fst (us_core_profiles self))]
         \<and> ri_byType (index_us_core_profiles fs (us_core_profiles self) ?i1)
             = [(''resource'', [] @ map fst (fhir_resources self)), (''profile'', [] @ map fst (us_core_profiles self))]"
    by (rule index_us_core_profiles_lists) (simp_all only: 1)
  from 2 show "ri_bySpec (generate_resource_index self fs)
     = [(''fhir-r4'', map fst (fhir_resources self)), (''us-core-stu6.1'', map fst (us_core_profiles self))]"
    by (simp add: generate_resource_index_def Let_def)
  from 2 show "ri_byType (generate_resource_index self fs)
     = [(''resource'', map fst (fhir_resources self)), (''profile'', map fst (us_core_profiles self))]"
    by (simp add: generate_resource_index_def Let_def)
qed

lemma generate_resource_index_byName:
  "dict_get (ri_byName (generate_resource_index self fs)) name
   = (case map_of (rev (us_core_profiles self)) name of
        Some data \<Rightarrow> Some (us_core_index_entry fs name data)
      | None \<Rightarrow>
          (case map_of (rev (fhir_resources self)) name of
             Some data \<Rightarrow> Some (fhir_index_entry fs name data)
           | None \<Rightarrow> None))"
  by (simp add: generate_resource_index_def Let_def dict_get_def index_us_core_profiles_byName
      index_fhir_resources_byName map_of_store_loop cong: option.case_cong)

lemma generate_resource_index_statistics:
  "ri_statistics (generate_resource_index self fs)
   = [(''totalResources'', int (length (fhir_resources self)) + int (length (us_core_profiles self))),
      (''fhirResources'', int (length (fhir_resources self))),
      (''usCoreProfiles'', int (length (us_core_profiles self))),
      (''totalElements'',
         sum_list (map (\<lambda>data. int (length (p_elements data)))
           (dict_values (dict_merge (fhir_resources self) (us_core_profiles self)))))]"
  by (simp add: generate_resource_index_def Let_def)

lemma same_entries_same_lookup:
  assumes "distinct (map fst xs)" and "distinct (map fst ys)" and "set xs = set ys"
  shows "map_of (rev xs) = map_of (rev ys)"
    and "fst ` set xs = fst ` set ys"
    and "length xs = length ys"
proof -
  from assms have "map_of xs = map_of ys"
    by (simp add: map_of_inject_set)
  with assms show "map_of (rev xs) = map_of (rev ys)"
    by (simp add: map_of_rev_distinct)
  from assms show "fst ` set xs = fst ` set ys"
    by simp
  from assms have "distinct xs" and "distinct ys"
    by (simp_all add: distinct_map)
  with assms show "length xs = length ys"
    by (metis distinct_card)
qed

lemma sum_values_by_lookup:
  assumes "distinct (map fst xs)" and "distinct (map fst ys)" and "map_of xs = map_of ys"
  shows "sum_list (map g (dict_values xs)) = (sum_list (map g (dict_values ys)) :: int)"
proof -
  from assms have s: "set xs = set ys"
    by (simp add: map_of_inject_set)
  from assms have d: "distinct xs" "distinct ys"
    by (simp_all add: distinct_map)
  have "sum_list (map g (dict_values xs)) = sum_list (map (g \<circ> snd) xs)"
    by (simp add: dict_values_def)
  also have "\<dots> = sum (g \<circ> snd) (set xs)"
    using d by (simp add: sum_list_distinct_conv_sum_set)
  also have "\<dots> = sum_list (map (g \<circ> snd) ys)"
    using d s by (simp add: sum_list_distinct_conv_sum_set)
  finally show ?thesis
    by (simp add: dict_values_def)
qed

text \<open>
  Claim C3 as stated fails for \<open>fetch_datatypes.py\<close>: its entry for a document with the
  elements \<open>Observation\<close>, one without a path, and \<open>Observation.status\<close> has three
  records, the first with the path and the name \<open>Observation\<close>, the second with an empty
  path and an empty name.
\<close>

theorem data_type_root_element_kept:
  "map_option (\<lambda>p. map (\<lambda>e. (dte_path e, dte_name e)) (dtp_elements p))
     (dt_process_structure_definition observation_snapshot)
   = Some [(''Observation'', ''Observation''), ('''', ''''), (''Observation.status'', ''status'')]"
  by code_simp

text \<open>
  Claim C3, amended, script by script. Let an element have no \<open>path\<close>, or a path
  without a dot. In \<open>fetch_real_data.py\<close> it produces no record: the element list with it
  and the element list without it give the same records and the same entry, for
  \<open>process_fhir_structure_definition\<close> and for \<open>process_us_core_profile\<close>; a batch with
  the one document and the batch with the other give the same resource index and the same
  element index after the loop of the resources, and the same indexes, or the same error,
  after the loop of the profiles. In \<open>download_specs.py\<close>, \<open>process_element\<close> returns
  \<open>None\<close> for it and both element loops skip it. In \<open>fetch_datatypes.py\<close> it is
  kept: the entry has one record for each element of the chosen list, in order, and the
  record of this element has its path (the empty string when it has none) as path and as
  name.
\<close>

theorem root_elements_excluded:
  assumes "raw_path element = None \<or> (\<exists>path. raw_path element = Some path \<and> CHR ''.'' \<notin> set path)"
    and "with_root = d\<lparr>sd_snapshot := Some (Some (before @ element # after))\<rparr>"
    and "without_root = d\<lparr>sd_snapshot := Some (Some (before @ after))\<rparr>"
    and "dt_chosen_elements data_type = before @ element # after"
  shows "process_elements (before @ element # after) is_profile = process_elements (before @ after) is_profile
       \<and> process_fhir_structure_definition with_root = process_fhir_structure_definition without_root
       \<and> process_us_core_profile with_root = process_us_core_profile without_root
       \<and> generate_resource_index
           (download_fhir_resources (earlier @ (name, Some with_root) # later) self) fs
         = generate_resource_index
           (download_fhir_resources (earlier @ (name, Some without_root) # later) self) fs
       \<and> generate_element_index
           (download_fhir_resources (earlier @ (name, Some with_root) # later) self)
         = generate_element_index
           (download_fhir_resources (earlier @ (name, Some without_root) # later) self)
       \<and> map_sum id (\<lambda>self'. (generate_resource_index self' fs, generate_element_index self'))
           (download_us_core_profiles (earlier @ (name, Some with_root) # later) self)
         = map_sum id (\<lambda>self'. (generate_resource_index self' fs, generate_element_index self'))
           (download_us_core_profiles (earlier @ (name, Some without_root) # later) self)
       \<and> process_element element = None
       \<and> dl_process_elements (before @ element # after) = dl_process_elements (before @ after)
       \<and> dl_process_profile_elements (before @ element # after) = dl_process_profile_elements (before @ after)
       \<and> map_option dtp_elements (dt_process_structure_definition data_type)
         = Some (map element_data before @ element_data element # map element_data after)
       \<and> dte_path (element_data element) = get_or (raw_path element) ''''
       \<and> dte_name (element_data element) = get_or (raw_path element) ''''"
proof -
  note sk = skipped_path [OF assms(1)]
  have one: "process_elements [element] is_profile = []" for is_profile
    using sk by (auto simp: Let_def)
  have pe: "process_elements (before @ element # after) p = process_elements (before @ after) p" for p
    using process_elements_append [of before "[element] @ after" p]
      process_elements_append [of "[element]" after p]
      process_elements_append [of before after p] one [of p] by simp
  have dl1: "dl_process_elements [element] = []"
    using sk by auto
  have dl: "dl_process_elements (before @ element # after) = dl_process_elements (before @ after)"
    using dl_process_elements_append [of before "[element] @ after"]
      dl_process_elements_append [of "[element]" after]
      dl_process_elements_append [of before after] dl1 by simp
  have dlp1: "dl_process_profile_elements [element] = []"
    using sk by auto
  have dlp: "dl_process_profile_elements (before @ element # after) = dl_process_profile_elements (before @ after)"
    using dl_process_profile_elements_append [of before "[element] @ after"]
      dl_process_profile_elements_append [of "[element]" after]
      dl_process_profile_elements_append [of before after] dlp1 by simp
  have pn: "process_element element = None"
    using sk by (auto simp: process_element_def Let_def)
  have hd: "processed_header (d\<lparr>sd_snapshot := s\<rparr>) ty = processed_header d ty" for s ty
    by (simp add: processed_header_def)
  have f: "process_fhir_structure_definition with_root = process_fhir_structure_definition without_root"
    unfolding assms(2,3)
    by (simp add: process_fhir_structure_definition_def snapshot_elements_def get_or_def hd pe
        del: process_elements.simps)
  have u: "process_us_core_profile with_root = process_us_core_profile without_root"
    unfolding assms(2,3)
    by (simp add: process_us_core_profile_def snapshot_elements_def get_or_def hd pe
        del: process_elements.simps)
  have full: "\<not> document_is_empty with_root" "\<not> document_is_empty without_root"
    unfolding assms(2,3) by (simp_all add: document_is_empty_def)
  have step_fhir: "download_fhir_resources ((name, Some with_root) # later) s
                   = download_fhir_resources ((name, Some without_root) # later) s" for s
    using full by (simp add: f)
  have run_fhir: "download_fhir_resources (earlier @ (name, Some with_root) # later) self
                  = download_fhir_resources (earlier @ (name, Some without_root) # later) self"
    by (simp only: download_fhir_resources_append step_fhir)
  have step_us: "download_us_core_profiles ((name, Some with_root) # later) s
                 = download_us_core_profiles ((name, Some without_root) # later) s" for s
    using full by (simp add: u)
  have run_us: "download_us_core_profiles (earlier @ (name, Some with_root) # later) self
                = download_us_core_profiles (earlier @ (name, Some without_root) # later) self"
    by (simp only: download_us_core_profiles_append step_us)
  have dt: "map_option dtp_elements (dt_process_structure_definition data_type)
            = Some (map element_data before @ element_data element # map element_data after)"
    by (simp add: dt_process_structure_definition_def assms(4))
  have path: "dte_path (element_data element) = get_or (raw_path element) ''''"
    by (simp add: element_data_def)
  have name: "dte_name (element_data element) = get_or (raw_path element) ''''"
    using assms(1) by (auto simp: element_data_def get_or_def last_segment_def split_on_no_separator)
  show ?thesis
    unfolding run_fhir run_us using pe pn dl dlp f u dt path name by (intro conjI) simp_all
qed

text \<open>
  C3 amended, at the root element \<open>Observation\<close>, between \<open>Patient.id\<close> and
  \<open>Observation.status\<close>, in a batch of two documents.
\<close>

theorem root_elements_excluded_witness:
  "process_elements ([patient_id] @ observation_root # [observation_status]) True
     = process_elements ([patient_id] @ [observation_status]) True
   \<and> process_fhir_structure_definition
       (observation_both\<lparr>sd_snapshot := Some (Some ([patient_id] @ observation_root # [observation_status]))\<rparr>)
     = process_fhir_structure_definition
       (observation_both\<lparr>sd_snapshot := Some (Some ([patient_id] @ [observation_status]))\<rparr>)
   \<and> process_us_core_profile
       (observation_both\<lparr>sd_snapshot := Some (Some ([patient_id] @ observation_root # [observation_status]))\<rparr>)
     = process_us_core_profile
       (observation_both\<lparr>sd_snapshot := Some (Some ([patient_id] @ [observation_status]))\<rparr>)
   \<and> generate_resource_index
       (download_fhir_resources
          ([(''Patient'', Some patient_first)] @ (''Observation'', Some
             (observation_both\<lparr>sd_snapshot := Some (Some ([patient_id] @ observation_root # [observation_status]))\<rparr>)) # [])
          new_fetcher) no_files
     = generate_resource_index
       (download_fhir_resources
          ([(''Patient'', Some patient_first)] @ (''Observation'', Some
             (observation_both\<lparr>sd_snapshot := Some (Some ([patient_id] @ [observation_status]))\<rparr>)) # [])
          new_fetcher) no_files
   \<and> generate_element_index
       (download_fhir_resources
          ([(''Patient'', Some patient_first)] @ (''Observation'', Some
             (observation_both\<lparr>sd_snapshot := Some (Some ([patient_id] @ observation_root # [observation_status]))\<rparr>)) # [])
          new_fetcher)
     = generate_element_index
       (download_fhir_resources
          ([(''Patient'', Some patient_first)] @ (''Observation'', Some
             (observation_both\<lparr>sd_snapshot := Some (Some ([patient_id] @ [observation_status]))\<rparr>)) # [])
          new_fetcher)
   \<and> map_sum id (\<lambda>self'. (generate_resource_index self' no_files, generate_element_index self'))
       (download_us_core_profiles
          ([(''Patient'', Some patient_first)] @ (''Observation'', Some
             (observation_both\<lparr>sd_snapshot := Some (Some ([patient_id] @ observation_root # [observation_status]))\<rparr>)) # [])
          new_fetcher)
     = map_sum id (\<lambda>self'. (generate_resource_index self' no_files, generate_element_index self'))
       (download_us_core_profiles
          ([(''Patient'', Some patient_first)] @ (''Observation'', Some
             (observation_both\<lparr>sd_snapshot := Some (Some ([patient_id] @ [observation_status]))\<rparr>)) # [])
          new_fetcher)
   \<and> process_element observation_root = None
   \<and> dl_process_elements ([patient_id] @ observation_root # [observation_status])
     = dl_process_elements ([patient_id] @ [observation_status])
   \<and> dl_process_profile_elements ([patient_id] @ observation_root # [observation_status])
     = dl_process_profile_elements ([patient_id] @ [observation_status])
   \<and> map_option dtp_elements
       (dt_process_structure_definition
          (observation_both\<lparr>sd_differential := Some (Some [patient_id, observation_root, observation_status])\<rparr>))
     = Some (map element_data [patient_id] @ element_data observation_root # map element_data [observation_status])
   \<and> dte_path (element_data observation_root) = get_or (raw_path observation_root) ''''
   \<and> dte_name (element_data observation_root) = get_or (raw_path observation_root) ''''"
proof -
  have h: "raw_path observation_root = None
           \<or> (\<exists>path. raw_path observation_root = Some path \<and> CHR ''.'' \<notin> set path)"
    by (simp add: observation_root_def raw_element_of_def)
  have c: "dt_chosen_elements
             (observation_both\<lparr>sd_differential := Some (Some [patient_id, observation_root, observation_status])\<rparr>)
           = [patient_id] @ observation_root # [observation_status]"
    by (simp add: dt_chosen_elements_def)
  show ?thesis
    by (rule root_elements_excluded [OF h refl refl c])
qed

text \<open>
  Claim C1 as stated fails: two documents fetched under the name \<open>Patient\<close> in the
  family \<open>fhir-r4\<close> raise nothing. The index is built, lists the name once, and its
  entry is that of the second document (two elements, the later date); with the first
  document alone the entry has one element.
\<close>

theorem duplicate_name_overwrites:
  "map (\<lambda>(name, e). (name, ie_elementCount e, ie_lastModified e))
     (ri_byName (generate_resource_index
        (download_fhir_resources
           [(''Patient'', Some patient_first), (''Patient'', Some patient_second)] new_fetcher)
        no_files))
   = [(''Patient'', 2, ''2023-10-17'')]
   \<and> ri_bySpec (generate_resource_index
        (download_fhir_resources
           [(''Patient'', Some patient_first), (''Patient'', Some patient_second)] new_fetcher)
        no_files)
     = [(''fhir-r4'', [''Patient'']), (''us-core-stu6.1'', [])]
   \<and> map (\<lambda>(name, e). (name, ie_elementCount e, ie_lastModified e))
     (ri_byName (generate_resource_index
        (download_fhir_resources [(''Patient'', Some patient_first)] new_fetcher) no_files))
   = [(''Patient'', 1, ''2019-11-01'')]"
  by code_simp

text \<open>
  Claim C1, amended. Let the two stores be dictionaries, and let the two download loops
  return, from any state of the stores and for any two batches. Then no error is raised for
  a repeated name, and building the resource index raises none. Each store holds each name
  once, and each family's \<open>bySpec\<close> list is the list of the names of its store. The last
  document of the resource batch that is fetched under a name and is not empty (a failed
  fetch and an empty document store nothing) is the one the store of the resources holds
  for that name (last write wins); the \<open>byName\<close> entry
  of the name is the entry of that document, unless the store of the profiles holds the
  same name: then it is the profile's entry, which was written later. The last document of
  the profile batch that is not empty and whose name is cleaned to a given name is the one
  the store of the profiles and \<open>byName\<close> hold for that name.
\<close>

theorem last_write_wins:
  assumes "distinct (dict_keys (fhir_resources self))"
    and "distinct (dict_keys (us_core_profiles self))"
    and "download_us_core_profiles profiles (download_fhir_resources resources self) = Inr self'"
  shows "distinct (dict_keys (fhir_resources self'))
     \<and> distinct (dict_keys (us_core_profiles self'))
     \<and> ri_bySpec (generate_resource_index self' fs)
        = [(''fhir-r4'', dict_keys (fhir_resources self')),
           (''us-core-stu6.1'', dict_keys (us_core_profiles self'))]
     \<and> (\<forall>earlier name d later.
           resources = earlier @ (name, Some d) # later \<and> \<not> document_is_empty d
           \<and> name \<notin> fst ` {x \<in> set later. \<exists>doc. snd x = Some doc \<and> \<not> document_is_empty doc} \<longrightarrow>
           (\<exists>entry. process_fhir_structure_definition d = Some entry
              \<and> dict_get (fhir_resources self') name = Some entry
              \<and> dict_get (ri_byName (generate_resource_index self' fs)) name
                 = (case dict_get (us_core_profiles self') name of
                      None \<Rightarrow> Some (fhir_index_entry fs name entry)
                    | Some profile \<Rightarrow> Some (us_core_index_entry fs name profile))))
     \<and> (\<forall>earlier profile_name d later name.
           profiles = earlier @ (profile_name, Some d) # later \<and> \<not> document_is_empty d
           \<and> clean_profile_name profile_name = Inr name
           \<and> Inr name \<notin> (\<lambda>x. clean_profile_name (fst x))
                 ` {x \<in> set later. \<exists>doc. snd x = Some doc \<and> \<not> document_is_empty doc} \<longrightarrow>
           (\<exists>entry. process_us_core_profile d = Some entry
              \<and> dict_get (us_core_profiles self') name = Some entry
              \<and> dict_get (ri_byName (generate_resource_index self' fs)) name
                 = Some (us_core_index_entry fs name entry)))"
proof -
  let ?mid = "download_fhir_resources resources self"
  have fhir_eq: "fhir_resources self' = fhir_resources ?mid"
    using assms(3) by (rule download_us_core_profiles_fhir)
  have dist_fhir: "distinct (map fst (fhir_resources self'))"
    unfolding fhir_eq using assms(1)
    by (intro download_fhir_resources_distinct) (simp add: dict_keys_def)
  have "distinct (map fst (us_core_profiles ?mid))"
    using assms(2) by (simp add: download_fhir_resources_us_core dict_keys_def)
  with assms(3) have dist_us: "distinct (map fst (us_core_profiles self'))"
    by (rule download_us_core_profiles_distinct)
  have lists: "ri_bySpec (generate_resource_index self' fs)
        = [(''fhir-r4'', dict_keys (fhir_resources self')),
           (''us-core-stu6.1'', dict_keys (us_core_profiles self'))]"
    by (simp add: generate_resource_index_lists dict_keys_def)
  have by_name: "dict_get (ri_byName (generate_resource_index self' fs)) n
      = (case map_of (us_core_profiles self') n of
           Some data \<Rightarrow> Some (us_core_index_entry fs n data)
         | None \<Rightarrow>
             (case map_of (fhir_resources self') n of
                Some data \<Rightarrow> Some (fhir_index_entry fs n data)
              | None \<Rightarrow> None))" for n
    by (simp add: generate_resource_index_byName map_of_rev_distinct [OF dist_fhir]
        map_of_rev_distinct [OF dist_us] cong: option.case_cong)
  have fhir_part: "\<exists>entry. process_fhir_structure_definition d = Some entry
              \<and> dict_get (fhir_resources self') name = Some entry
              \<and> dict_get (ri_byName (generate_resource_index self' fs)) name
                 = (case dict_get (us_core_profiles self') name of
                      None \<Rightarrow> Some (fhir_index_entry fs name entry)
                    | Some profile \<Rightarrow> Some (us_core_index_entry fs name profile))"
    if split: "resources = earlier @ (name, Some d) # later"
      and full: "\<not> document_is_empty d"
      and last: "name \<notin> fst ` {x \<in> set later. \<exists>doc. snd x = Some doc \<and> \<not> document_is_empty doc}"
    for earlier name d later
  proof -
    let ?base = "download_fhir_resources earlier self"
    obtain entry where entry: "process_fhir_structure_definition d = Some entry"
      by (simp add: process_fhir_structure_definition_def Let_def)
    have "resources = earlier @ ([(name, Some d)] @ later)"
      using split by simp
    then have run: "?mid = download_fhir_resources later (download_fhir_resources [(name, Some d)] ?base)"
      by (simp only: download_fhir_resources_append)
    have one: "map_of (fhir_resources (download_fhir_resources [(name, Some d)] ?base)) name = Some entry"
      using entry full by (simp add: map_of_dict_set)
    have "map_of (fhir_resources ?mid) name
          = map_of (fhir_resources (download_fhir_resources [(name, Some d)] ?base)) name"
      unfolding run using last by (rule download_fhir_resources_other)
    with one have look: "map_of (fhir_resources self') name = Some entry"
      by (simp add: fhir_eq)
    have "dict_get (ri_byName (generate_resource_index self' fs)) name
                 = (case dict_get (us_core_profiles self') name of
                      None \<Rightarrow> Some (fhir_index_entry fs name entry)
                    | Some profile \<Rightarrow> Some (us_core_index_entry fs name profile))"
      using by_name [of name] look by (simp add: dict_get_def split: option.splits)
    with entry look show ?thesis
      by (intro exI [of _ entry] conjI) (simp_all add: dict_get_def)
  qed
  have us_part: "\<exists>entry. process_us_core_profile d = Some entry
              \<and> dict_get (us_core_profiles self') name = Some entry
              \<and> dict_get (ri_byName (generate_resource_index self' fs)) name
                 = Some (us_core_index_entry fs name entry)"
    if split: "profiles = earlier @ (profile_name, Some d) # later"
      and full: "\<not> document_is_empty d"
      and clean: "clean_profile_name profile_name = Inr name"
      and last: "Inr name \<notin> (\<lambda>x. clean_profile_name (fst x))
                 ` {x \<in> set later. \<exists>doc. snd x = Some doc \<and> \<not> document_is_empty doc}"
    for earlier profile_name d later name
  proof -
    obtain entry where entry: "process_us_core_profile d = Some entry"
      by (simp add: process_us_core_profile_def Let_def)
    have "download_us_core_profiles (earlier @ (profile_name, Some d) # later)
            (download_fhir_resources resources self) = Inr self'"
      using assms(3) split by simp
    then obtain base where
      base: "download_us_core_profiles earlier (download_fhir_resources resources self) = Inr base"
      and step: "download_us_core_profiles ((profile_name, Some d) # later) base = Inr self'"
      by (cases "download_us_core_profiles earlier (download_fhir_resources resources self)")
         (simp_all add: download_us_core_profiles_append)
    define one where
      "one = base\<lparr>us_core_profiles := dict_set name entry (us_core_profiles base),
                  us_core_profiles_downloaded := us_core_profiles_downloaded base + 1\<rparr>"
    have rest: "download_us_core_profiles later one = Inr self'"
      using step entry full clean by (simp add: one_def)
    have "map_of (us_core_profiles one) name = Some entry"
      by (simp add: one_def map_of_dict_set)
    moreover have "map_of (us_core_profiles self') name = map_of (us_core_profiles one) name"
      using rest last by (rule download_us_core_profiles_other)
    ultimately have look: "map_of (us_core_profiles self') name = Some entry"
      by simp
    have "dict_get (ri_byName (generate_resource_index self' fs)) name
          = Some (us_core_index_entry fs name entry)"
      by (simp add: by_name look)
    with entry look show ?thesis
      by (intro exI [of _ entry] conjI) (simp_all add: dict_get_def)
  qed
  from dist_fhir dist_us lists fhir_part us_part show ?thesis
    unfolding dict_keys_def by blast
qed

text \<open>
  C1 amended, at a run in which \<open>Patient\<close> is fetched as a resource twice, then as
  an empty document and as a failed fetch, the profile
  names \<open>us-core-patient\<close> and \<open>us-core-Patient\<close> are both cleaned to
  \<open>USCorePatient\<close>, and a profile is named \<open>Patient\<close>.
\<close>

theorem last_write_wins_witness:
  "download_us_core_profiles
     [(''us-core-patient'', Some us_core_patient),
      (''us-core-Patient'', Some us_core_patient_second),
      (''Patient'', Some patient_profile)]
     (download_fhir_resources
        [(''Patient'', Some patient_first), (''Patient'', Some patient_second),
         (''Patient'', Some empty_document), (''Patient'', None),
         (''Observation'', Some observation_both)] new_fetcher)
   = Inr after_both_downloads
   \<and> dict_keys (fhir_resources after_both_downloads) = [''Patient'', ''Observation'']
   \<and> dict_keys (us_core_profiles after_both_downloads) = [''USCorePatient'', ''Patient'']
   \<and> ri_bySpec (generate_resource_index after_both_downloads no_files)
      = [(''fhir-r4'', dict_keys (fhir_resources after_both_downloads)),
         (''us-core-stu6.1'', dict_keys (us_core_profiles after_both_downloads))]
   \<and> (\<exists>entry. process_fhir_structure_definition patient_second = Some entry
         \<and> dict_get (fhir_resources after_both_downloads) ''Patient'' = Some entry
         \<and> dict_get (ri_byName (generate_resource_index after_both_downloads no_files)) ''Patient''
            = (case dict_get (us_core_profiles after_both_downloads) ''Patient'' of
                 None \<Rightarrow> Some (fhir_index_entry no_files ''Patient'' entry)
               | Some profile \<Rightarrow> Some (us_core_index_entry no_files ''Patient'' profile)))
   \<and> (\<exists>entry. process_us_core_profile us_core_patient_second = Some entry
         \<and> dict_get (us_core_profiles after_both_downloads) ''USCorePatient'' = Some entry
         \<and> dict_get (ri_byName (generate_resource_index after_both_downloads no_files)) ''USCorePatient''
            = Some (us_core_index_entry no_files ''USCorePatient'' entry))"
proof -
  let ?resources = "[(''Patient'', Some patient_first), (''Patient'', Some patient_second),
                     (''Patient'', Some empty_document), (''Patient'', None),
                     (''Observation'', Some observation_both)]"
  let ?later = "[(''Patient'', Some empty_document), (''Patient'', None),
                 (''Observation'', Some observation_both)]"
  let ?profiles = "[(''us-core-patient'', Some us_core_patient),
                    (''us-core-Patient'', Some us_core_patient_second),
                    (''Patient'', Some patient_profile)]"
  define run_result where
    "run_result = download_us_core_profiles ?profiles (download_fhir_resources ?resources new_fetcher)"
  have returns: "case run_result of Inl err \<Rightarrow> False | Inr self \<Rightarrow> True"
    unfolding run_result_def by code_simp
  have "after_both_downloads = (case run_result of Inl err \<Rightarrow> snd err | Inr self \<Rightarrow> self)"
    unfolding run_result_def after_both_downloads_def by (rule refl)
  with returns have "run_result = Inr after_both_downloads"
    by (cases run_result) simp_all
  then have run: "download_us_core_profiles ?profiles (download_fhir_resources ?resources new_fetcher)
                  = Inr after_both_downloads"
    unfolding run_result_def .
  have keys: "dict_keys (fhir_resources after_both_downloads) = [''Patient'', ''Observation'']"
    "dict_keys (us_core_profiles after_both_downloads) = [''USCorePatient'', ''Patient'']"
    by code_simp+
  have clean: "clean_profile_name ''us-core-Patient'' = Inr ''USCorePatient''"
    "clean_profile_name ''Patient'' = Inr ''Patient''"
    by code_simp+
  have empty: "document_is_empty empty_document"
    by (simp add: document_is_empty_def empty_document_def)
  have fhir: "?resources = [(''Patient'', Some patient_first)] @ (''Patient'', Some patient_second)
                 # ?later
              \<and> \<not> document_is_empty patient_second
              \<and> ''Patient'' \<notin> fst ` {x \<in> set ?later. \<exists>doc. snd x = Some doc \<and> \<not> document_is_empty doc}"
    by (auto simp: patient_second_def observation_both_def structure_def_of_not_empty empty)
  have us: "?profiles = [(''us-core-patient'', Some us_core_patient)]
                 @ (''us-core-Patient'', Some us_core_patient_second) # [(''Patient'', Some patient_profile)]
              \<and> \<not> document_is_empty us_core_patient_second
              \<and> clean_profile_name ''us-core-Patient'' = Inr ''USCorePatient''
              \<and> Inr ''USCorePatient'' \<notin> (\<lambda>x. clean_profile_name (fst x))
                   ` {x \<in> set [(''Patient'', Some patient_profile)].
                        \<exists>doc. snd x = Some doc \<and> \<not> document_is_empty doc}"
    by (auto simp: us_core_patient_second_def structure_def_of_not_empty clean)
  have all: "distinct (dict_keys (fhir_resources after_both_downloads))
     \<and> distinct (dict_keys (us_core_profiles after_both_downloads))
     \<and> ri_bySpec (generate_resource_index after_both_downloads no_files)
        = [(''fhir-r4'', dict_keys (fhir_resources after_both_downloads)),
           (''us-core-stu6.1'', dict_keys (us_core_profiles after_both_downloads))]
     \<and> (\<forall>earlier name d later.
           ?resources = earlier @ (name, Some d) # later \<and> \<not> document_is_empty d
           \<and> name \<notin> fst ` {x \<in> set later. \<exists>doc. snd x = Some doc \<and> \<not> document_is_empty doc} \<longrightarrow>
           (\<exists>entry. process_fhir_structure_definition d = Some entry
              \<and> dict_get (fhir_resources after_both_downloads) name = Some entry
              \<and> dict_get (ri_byName (generate_resource_index after_both_downloads no_files)) name
                 = (case dict_get (us_core_profiles after_both_downloads) name of
                      None \<Rightarrow> Some (fhir_index_entry no_files name entry)
                    | Some profile \<Rightarrow> Some (us_core_index_entry no_files name profile))))
     \<and> (\<forall>earlier profile_name d later name.
           ?profiles = earlier @ (profile_name, Some d) # later \<and> \<not> document_is_empty d
           \<and> clean_profile_name profile_name = Inr name
           \<and> Inr name \<notin> (\<lambda>x. clean_profile_name (fst x))
                 ` {x \<in> set later. \<exists>doc. snd x = Some doc \<and> \<not> document_is_empty doc} \<longrightarrow>
           (\<exists>entry. process_us_core_profile d = Some entry
              \<and> dict_get (us_core_profiles after_both_downloads) name = Some entry
              \<and> dict_get (ri_byName (generate_resource_index after_both_downloads no_files)) name
                 = Some (us_core_index_entry no_files name entry)))"
    by (rule last_write_wins [OF _ _ run]) (simp_all add: new_fetcher_def dict_keys_def)
  from all have lists: "ri_bySpec (generate_resource_index after_both_downloads no_files)
        = [(''fhir-r4'', dict_keys (fhir_resources after_both_downloads)),
           (''us-core-stu6.1'', dict_keys (us_core_profiles after_both_downloads))]"
    by (elim conjE)
  from all have
    "?resources = [(''Patient'', Some patient_first)] @ (''Patient'', Some patient_second)
                 # ?later
              \<and> \<not> document_is_empty patient_second
              \<and> ''Patient'' \<notin> fst ` {x \<in> set ?later. \<exists>doc. snd x = Some doc \<and> \<not> document_is_empty doc} \<longrightarrow>
     (\<exists>entry. process_fhir_structure_definition patient_second = Some entry
         \<and> dict_get (fhir_resources after_both_downloads) ''Patient'' = Some entry
         \<and> dict_get (ri_byName (generate_resource_index after_both_downloads no_files)) ''Patient''
            = (case dict_get (us_core_profiles after_both_downloads) ''Patient'' of
                 None \<Rightarrow> Some (fhir_index_entry no_files ''Patient'' entry)
               | Some profile \<Rightarrow> Some (us_core_index_entry no_files ''Patient'' profile)))"
    by (elim conjE allE)
  from this fhir have one: "\<exists>entry. process_fhir_structure_definition patient_second = Some entry
         \<and> dict_get (fhir_resources after_both_downloads) ''Patient'' = Some entry
         \<and> dict_get (ri_byName (generate_resource_index after_both_downloads no_files)) ''Patient''
            = (case dict_get (us_core_profiles after_both_downloads) ''Patient'' of
                 None \<Rightarrow> Some (fhir_index_entry no_files ''Patient'' entry)
               | Some profile \<Rightarrow> Some (us_core_index_entry no_files ''Patient'' profile))"
    by (rule mp)
  from all have
    "?profiles = [(''us-core-patient'', Some us_core_patient)]
                 @ (''us-core-Patient'', Some us_core_patient_second) # [(''Patient'', Some patient_profile)]
              \<and> \<not> document_is_empty us_core_patient_second
              \<and> clean_profile_name ''us-core-Patient'' = Inr ''USCorePatient''
              \<and> Inr ''USCorePatient'' \<notin> (\<lambda>x. clean_profile_name (fst x))
                   ` {x \<in> set [(''Patient'', Some patient_profile)].
                        \<exists>doc. snd x = Some doc \<and> \<not> document_is_empty doc} \<longrightarrow>
     (\<exists>entry. process_us_core_profile us_core_patient_second = Some entry
         \<and> dict_get (us_core_profiles after_both_downloads) ''USCorePatient'' = Some entry
         \<and> dict_get (ri_byName (generate_resource_index after_both_downloads no_files)) ''USCorePatient''
            = Some (us_core_index_entry no_files ''USCorePatient'' entry))"
    by (elim conjE allE)
  from this us have two: "\<exists>entry. process_us_core_profile us_core_patient_second = Some entry
         \<and> dict_get (us_core_profiles after_both_downloads) ''USCorePatient'' = Some entry
         \<and> dict_get (ri_byName (generate_resource_index after_both_downloads no_files)) ''USCorePatient''
            = Some (us_core_index_entry no_files ''USCorePatient'' entry)"
    by (rule mp)
  from run keys lists one two show ?thesis
    by (intro conjI)
qed

text \<open>
  Claim C4 as stated fails: the same two entries stored in the two possible orders give
  different \<open>bySpec\<close> lists and different orders of \<open>byName\<close>, and the list
  \<open>Patient, Observation\<close> is not sorted.
\<close>

theorem index_lists_follow_insertion_order:
  "ri_bySpec (generate_resource_index
      (download_fhir_resources
         [(''Patient'', Some patient_first), (''Observation'', Some observation_both)] new_fetcher)
      no_files)
   = [(''fhir-r4'', [''Patient'', ''Observation'']), (''us-core-stu6.1'', [])]
   \<and> ri_bySpec (generate_resource_index
      (download_fhir_resources
         [(''Observation'', Some observation_both), (''Patient'', Some patient_first)] new_fetcher)
      no_files)
   = [(''fhir-r4'', [''Observation'', ''Patient'']), (''us-core-stu6.1'', [])]
   \<and> map fst (ri_byName (generate_resource_index
      (download_fhir_resources
         [(''Patient'', Some patient_first), (''Observation'', Some observation_both)] new_fetcher)
      no_files))
   = [''Patient'', ''Observation'']
   \<and> map fst (ri_byName (generate_resource_index
      (download_fhir_resources
         [(''Observation'', Some observation_both), (''Patient'', Some patient_first)] new_fetcher)
      no_files))
   = [''Observation'', ''Patient'']
   \<and> sort [''Patient'', ''Observation''] = [''Observation'', ''Patient'']"
  by code_simp

text \<open>
  Claim C4, amended. The resource index is a function of the two stores and the files.
  For two pairs of stores that hold the same entries (with distinct names) in any order,
  the indexes agree in what they hold: every name has the same \<open>byName\<close> entry, the
  \<open>bySpec\<close> and \<open>byType\<close> lists have the same members, and the statistics are
  equal.
\<close>

theorem index_agrees_up_to_order:
  assumes "distinct (map fst (fhir_resources s1))" and "distinct (map fst (fhir_resources s2))"
    and "set (fhir_resources s1) = set (fhir_resources s2)"
    and "distinct (map fst (us_core_profiles s1))" and "distinct (map fst (us_core_profiles s2))"
    and "set (us_core_profiles s1) = set (us_core_profiles s2)"
  shows "dict_get (ri_byName (generate_resource_index s1 fs)) name
         = dict_get (ri_byName (generate_resource_index s2 fs)) name
       \<and> map (\<lambda>(k, names). (k, set names)) (ri_bySpec (generate_resource_index s1 fs))
         = map (\<lambda>(k, names). (k, set names)) (ri_bySpec (generate_resource_index s2 fs))
       \<and> map (\<lambda>(k, names). (k, set names)) (ri_byType (generate_resource_index s1 fs))
         = map (\<lambda>(k, names). (k, set names)) (ri_byType (generate_resource_index s2 fs))
       \<and> ri_statistics (generate_resource_index s1 fs) = ri_statistics (generate_resource_index s2 fs)"
proof -
  note f = same_entries_same_lookup [OF assms(1,2,3)]
  note u = same_entries_same_lookup [OF assms(4,5,6)]
  have byName: "dict_get (ri_byName (generate_resource_index s1 fs)) name
         = dict_get (ri_byName (generate_resource_index s2 fs)) name"
    by (simp add: generate_resource_index_byName f(1) u(1) cong: option.case_cong)
  have lists: "map (\<lambda>(k, names). (k, set names)) (ri_bySpec (generate_resource_index s1 fs))
         = map (\<lambda>(k, names). (k, set names)) (ri_bySpec (generate_resource_index s2 fs))"
      "map (\<lambda>(k, names). (k, set names)) (ri_byType (generate_resource_index s1 fs))
         = map (\<lambda>(k, names). (k, set names)) (ri_byType (generate_resource_index s2 fs))"
    by (simp_all add: generate_resource_index_lists f(2) u(2))
  have merged: "map_of (dict_merge (fhir_resources s1) (us_core_profiles s1))
              = map_of (dict_merge (fhir_resources s2) (us_core_profiles s2))"
  proof
    fix n
    have "map_of (fhir_resources s1) = map_of (fhir_resources s2)"
      using assms by (simp add: map_of_inject_set)
    then have "map_of (fhir_resources s1) n = map_of (fhir_resources s2) n"
      by simp
    then show "map_of (dict_merge (fhir_resources s1) (us_core_profiles s1)) n
             = map_of (dict_merge (fhir_resources s2) (us_core_profiles s2)) n"
      by (simp add: map_of_dict_merge u(1) cong: option.case_cong)
  qed
  have total: "sum_list (map (\<lambda>data. int (length (p_elements data)))
                  (dict_values (dict_merge (fhir_resources s1) (us_core_profiles s1))))
             = sum_list (map (\<lambda>data. int (length (p_elements data)))
                  (dict_values (dict_merge (fhir_resources s2) (us_core_profiles s2))))"
    by (rule sum_values_by_lookup [OF distinct_dict_merge [OF assms(1)] distinct_dict_merge [OF assms(2)] merged])
  have stats: "ri_statistics (generate_resource_index s1 fs) = ri_statistics (generate_resource_index s2 fs)"
    by (simp add: generate_resource_index_statistics f(3) u(3) total)
  from byName lists stats show ?thesis
    by blast
qed

text \<open>C4 amended, at two entries stored in the two possible orders.\<close>

theorem index_agrees_up_to_order_witness:
  "dict_get (ri_byName (generate_resource_index
       (download_fhir_resources
          [(''Patient'', Some patient_first), (''Observation'', Some observation_both)] new_fetcher)
       no_files)) ''Patient''
   = dict_get (ri_byName (generate_resource_index
       (download_fhir_resources
          [(''Observation'', Some observation_both), (''Patient'', Some patient_first)] new_fetcher)
       no_files)) ''Patient''
   \<and> map (\<lambda>(k, names). (k, set names)) (ri_bySpec (generate_resource_index
       (download_fhir_resources
          [(''Patient'', Some patient_first), (''Observation'', Some observation_both)] new_fetcher)
       no_files))
     = map (\<lambda>(k, names). (k, set names)) (ri_bySpec (generate_resource_index
       (download_fhir_resources
          [(''Observation'', Some observation_both), (''Patient'', Some patient_first)] new_fetcher)
       no_files))
   \<and> map (\<lambda>(k, names). (k, set names)) (ri_byType (generate_resource_index
       (download_fhir_resources
          [(''Patient'', Some patient_first), (''Observation'', Some observation_both)] new_fetcher)
       no_files))
     = map (\<lambda>(k, names). (k, set names)) (ri_byType (generate_resource_index
       (download_fhir_resources
          [(''Observation'', Some observation_both), (''Patient'', Some patient_first)] new_fetcher)
       no_files))
   \<and> ri_statistics (generate_resource_index
       (download_fhir_resources
          [(''Patient'', Some patient_first), (''Observation'', Some observation_both)] new_fetcher)
       no_files)
     = ri_statistics (generate_resource_index
       (download_fhir_resources
          [(''Observation'', Some observation_both), (''Patient'', Some patient_first)] new_fetcher)
       no_files)"
proof -
  let ?a = "download_fhir_resources
              [(''Patient'', Some patient_first), (''Observation'', Some observation_both)] new_fetcher"
  let ?b = "download_fhir_resources
              [(''Observation'', Some observation_both), (''Patient'', Some patient_first)] new_fetcher"
  let ?p = "the (process_fhir_structure_definition patient_first)"
  let ?o = "the (process_fhir_structure_definition observation_both)"
  have full: "\<not> document_is_empty patient_first" "\<not> document_is_empty observation_both"
    by (simp_all add: patient_first_def observation_both_def structure_def_of_not_empty)
  have a: "fhir_resources ?a = [(''Patient'', ?p), (''Observation'', ?o)]"
    using full by (simp add: process_fhir_structure_definition_def Let_def new_fetcher_def)
  have b: "fhir_resources ?b = [(''Observation'', ?o), (''Patient'', ?p)]"
    using full by (simp add: process_fhir_structure_definition_def Let_def new_fetcher_def)
  have ua: "us_core_profiles ?a = []" and ub: "us_core_profiles ?b = []"
    by (simp_all only: download_fhir_resources_us_core) (simp_all add: new_fetcher_def)
  have 1: "distinct (map fst (fhir_resources ?a))" and 2: "distinct (map fst (fhir_resources ?b))"
    by (simp_all only: a b) simp_all
  have 3: "set (fhir_resources ?a) = set (fhir_resources ?b)"
    by (simp only: a b) auto
  have 4: "distinct (map fst (us_core_profiles ?a))" and 5: "distinct (map fst (us_core_profiles ?b))"
    and 6: "set (us_core_profiles ?a) = set (us_core_profiles ?b)"
    by (simp_all only: ua ub) simp_all
  show ?thesis
    by (rule index_agrees_up_to_order [OF 1 2 3 4 5 6])
qed

section \<open>Properties of the element index\<close>

text \<open>The names under which must-support elements are collected.\<close>

lemma keys_append_at: "map fst (append_at k x d) = map fst d"
  by (induction d) (auto simp: append_at_def)

lemma keys_set_default: "fst ` set (set_default k v d) \<subseteq> insert k (fst ` set d)"
proof -
  have "set (map fst (dict_set k v d)) \<subseteq> insert k (set (map fst d))"
    by (auto simp: keys_dict_set)
  then show ?thesis
    by (auto simp: set_default_def)
qed

lemma index_element_must_support:
  "fst ` set (ei_mustSupportElements (index_element rn rd e idx))
   \<subseteq> fst ` set (ei_mustSupportElements idx)
     \<union> (if el_mustSupport e = Some True \<and> p_type rd = ''profile'' then {rn} else {})"
proof -
  have "ei_mustSupportElements (index_element rn rd e idx)
        = (if el_mustSupport e = Some True \<and> p_type rd = ''profile''
           then append_at rn (el_name e) (set_default rn [] (ei_mustSupportElements idx))
           else ei_mustSupportElements idx)"
    by (simp add: index_element_def Let_def)
  moreover have "fst ` set (append_at rn (el_name e) (set_default rn [] (ei_mustSupportElements idx)))
                 \<subseteq> insert rn (fst ` set (ei_mustSupportElements idx))"
    using keys_set_default [of rn "[]" "ei_mustSupportElements idx"]
      keys_append_at [of rn "el_name e" "set_default rn [] (ei_mustSupportElements idx)"]
    by (metis set_map)
  ultimately show ?thesis
    by auto
qed

lemma index_elements_must_support:
  "fst ` set (ei_mustSupportElements (index_elements rn rd es idx))
   \<subseteq> fst ` set (ei_mustSupportElements idx)
     \<union> (if p_type rd = ''profile'' \<and> (\<exists>e \<in> set es. el_mustSupport e = Some True) then {rn} else {})"
proof (induction es arbitrary: idx)
  case Nil
  then show ?case by simp
next
  case (Cons e es)
  from Cons.IH [of "index_element rn rd e idx"] index_element_must_support [of rn rd e idx]
  show ?case
    by (auto split: if_splits)
qed

lemma index_all_data_must_support:
  "fst ` set (ei_mustSupportElements (index_all_data all_data idx))
   \<subseteq> fst ` set (ei_mustSupportElements idx)
     \<union> {name. \<exists>data. (name, data) \<in> set all_data \<and> p_type data = ''profile''
               \<and> (\<exists>e \<in> set (p_elements data). el_mustSupport e = Some True)}"
proof (induction all_data arbitrary: idx)
  case Nil
  then show ?case by simp
next
  case (Cons x all_data)
  obtain rn rd where x: "x = (rn, rd)" by (cases x)
  define P :: "processed \<Rightarrow> bool" where "P data \<longleftrightarrow> p_type data = ''profile''
      \<and> (\<exists>e \<in> set (p_elements data). el_mustSupport e = Some True)" for data
  define idx1 where "idx1 = index_elements rn rd (p_elements rd) idx"
  have 1: "fst ` set (ei_mustSupportElements (index_all_data all_data idx1))
           \<subseteq> fst ` set (ei_mustSupportElements idx1) \<union> {name. \<exists>data. (name, data) \<in> set all_data \<and> P data}"
    using Cons.IH [of idx1] by (simp add: P_def)
  have 2: "fst ` set (ei_mustSupportElements idx1)
           \<subseteq> fst ` set (ei_mustSupportElements idx) \<union> (if P rd then {rn} else {})"
    using index_elements_must_support [of rn rd "p_elements rd" idx] by (simp add: P_def idx1_def)
  have 3: "(if P rd then {rn} else {}) \<subseteq> {name. \<exists>data. (name, data) \<in> set (x # all_data) \<and> P data}"
    by (auto simp: x)
  have 4: "{name. \<exists>data. (name, data) \<in> set all_data \<and> P data}
           \<subseteq> {name. \<exists>data. (name, data) \<in> set (x # all_data) \<and> P data}"
    by auto
  have "fst ` set (ei_mustSupportElements (index_all_data all_data idx1))
        \<subseteq> fst ` set (ei_mustSupportElements idx) \<union> {name. \<exists>data. (name, data) \<in> set (x # all_data) \<and> P data}"
    using 1 2 3 4 by blast
  then show ?case
    by (simp add: x idx1_def P_def)
qed

text \<open>
  Claim C6. The profile document named \<open>Patient\<close> with the elements \<open>Patient.id\<close>
  (0..1, not must-support) and \<open>Patient.name\<close> (1..*, must-support) is stored as a
  profile entry with \<open>mustSupportCount = 1\<close>, and the element index built from it has
  \<open>mustSupportElements = {Patient: [name]}\<close>. In every element index, a name under
  \<open>mustSupportElements\<close> is the name of an entry of type \<open>profile\<close> that has a
  must-support element.
\<close>

theorem must_support_scenario:
  "(case download_us_core_profiles [(''Patient'', Some patient_profile)] new_fetcher of
      Inl err \<Rightarrow> None
    | Inr self \<Rightarrow>
        Some (map (\<lambda>(name, entry). (name, p_type entry, p_mustSupportCount entry)) (us_core_profiles self),
              ei_mustSupportElements (generate_element_index self)))
   = Some ([(''Patient'', ''profile'', Some 1)], [(''Patient'', [''name''])])
   \<and> (\<forall>name \<in> set (dict_keys (ei_mustSupportElements (generate_element_index self))).
         \<exists>data. (name, data) \<in> set (dict_merge (fhir_resources self) (us_core_profiles self))
           \<and> p_type data = ''profile''
           \<and> (\<exists>e \<in> set (p_elements data). el_mustSupport e = Some True))"
proof
  show "(case download_us_core_profiles [(''Patient'', Some patient_profile)] new_fetcher of
      Inl err \<Rightarrow> None
    | Inr self \<Rightarrow>
        Some (map (\<lambda>(name, entry). (name, p_type entry, p_mustSupportCount entry)) (us_core_profiles self),
              ei_mustSupportElements (generate_element_index self)))
   = Some ([(''Patient'', ''profile'', Some 1)], [(''Patient'', [''name''])])"
    by code_simp
next
  let ?all = "dict_merge (fhir_resources self) (us_core_profiles self)"
  have "ei_mustSupportElements (generate_element_index self)
        = ei_mustSupportElements (index_all_data ?all
            \<lparr>ei_byName = [], ei_byPath = [], ei_searchTerms = [],
             ei_mustSupportElements = [], ei_dataTypeUsage = [], ei_constraints = []\<rparr>)"
    by (simp add: generate_element_index_def Let_def)
  with index_all_data_must_support [of ?all
      "\<lparr>ei_byName = [], ei_byPath = [], ei_searchTerms = [],
        ei_mustSupportElements = [], ei_dataTypeUsage = [], ei_constraints = []\<rparr>"]
  show "\<forall>name \<in> set (dict_keys (ei_mustSupportElements (generate_element_index self))).
         \<exists>data. (name, data) \<in> set ?all
           \<and> p_type data = ''profile''
           \<and> (\<exists>e \<in> set (p_elements data). el_mustSupport e = Some True)"
    by (auto simp: dict_keys_def)
qed

text \<open>C6 at the name \<open>Patient\<close> of the index built after that download.\<close>

theorem must_support_scenario_witness:
  "\<exists>data. (''Patient'', data)
          \<in> set (dict_merge (fhir_resources after_profile_download)
                   (us_core_profiles after_profile_download))
      \<and> p_type data = ''profile''
      \<and> (\<exists>e \<in> set (p_elements data). el_mustSupport e = Some True)"
proof -
  have k: "''Patient''
           \<in> set (dict_keys (ei_mustSupportElements (generate_element_index after_profile_download)))"
    by code_simp
  show ?thesis
    using bspec [OF conjunct2 [OF must_support_scenario [of after_profile_download]] k] .
qed

section \<open>Properties of the file hash\<close>

text \<open>A digest has 64 digits, so a fingerprint of a readable file is not the sentinel.\<close>

lemma length_hex_word: "length (hex_word w) = 8"
  by (simp add: hex_word_def)

lemma length_sha256_hexdigest: "length (sha256_hexdigest s) = 64"
proof -
  have "length (hex_state st) = 64" for st
    by (cases st rule: hex_state.cases) (simp add: length_hex_word)
  then show ?thesis
    by (simp add: sha256_hexdigest_def)
qed

lemma sentinel_only_when_unreadable:
  "(calculate_file_hash fs path = ''sha256:unknown'') = (\<exists>err. fs path = Inl err)"
proof (cases "fs path")
  case (Inl err)
  then show ?thesis
    by (simp add: calculate_file_hash_def)
next
  case (Inr content)
  have "take 16 (sha256_hexdigest content) \<noteq> ''unknown''"
  proof
    assume "take 16 (sha256_hexdigest content) = ''unknown''"
    from arg_cong [OF this, of length] show False
      by (simp add: length_sha256_hexdigest)
  qed
  with Inr show ?thesis
    by (simp add: calculate_file_hash_def)
qed

text \<open>An entry of the resource index is written from the entry of one of the stores.\<close>

lemma index_entry_of_store:
  assumes "distinct (dict_keys (fhir_resources self))"
    and "distinct (dict_keys (us_core_profiles self))"
    and "dict_get (ri_byName (generate_resource_index self fs)) name = Some entry"
  shows "\<exists>data.
           (dict_get (us_core_profiles self) name = Some data \<and> entry = us_core_index_entry fs name data)
           \<or> (dict_get (us_core_profiles self) name = None
               \<and> dict_get (fhir_resources self) name = Some data \<and> entry = fhir_index_entry fs name data)"
proof -
  have f: "map_of (rev (fhir_resources self)) = map_of (fhir_resources self)"
    using assms(1) by (intro map_of_rev_distinct) (simp add: dict_keys_def)
  have u: "map_of (rev (us_core_profiles self)) = map_of (us_core_profiles self)"
    using assms(2) by (intro map_of_rev_distinct) (simp add: dict_keys_def)
  from assms(3) have
    "(case map_of (us_core_profiles self) name of
        Some data \<Rightarrow> Some (us_core_index_entry fs name data)
      | None \<Rightarrow>
          (case map_of (fhir_resources self) name of
             Some data \<Rightarrow> Some (fhir_index_entry fs name data)
           | None \<Rightarrow> None)) = Some entry"
    by (simp add: generate_resource_index_byName f u cong: option.case_cong)
  then show ?thesis
    by (auto simp: dict_get_def split: option.splits)
qed

text \<open>
  Claim C10 as stated fails in its last part: nothing is treated as unchanged. With a
  directory in which no file can be read, the index entry of \<open>Patient\<close> has the hash
  \<open>sha256:unknown\<close> after the first document and after the second, and yet the second
  run replaces the entry: one element and the earlier date before, two elements and the
  later date after.
\<close>

theorem unreadable_entries_not_unchanged:
  "map (\<lambda>(name, e). (name, ie_hash e, ie_elementCount e, ie_lastModified e))
     (ri_byName (generate_resource_index
        (download_fhir_resources [(''Patient'', Some patient_first)] new_fetcher) no_files))
   = [(''Patient'', ''sha256:unknown'', 1, ''2019-11-01'')]
   \<and> map (\<lambda>(name, e). (name, ie_hash e, ie_elementCount e, ie_lastModified e))
     (ri_byName (generate_resource_index
        (download_fhir_resources [(''Patient'', Some patient_second)]
           (download_fhir_resources [(''Patient'', Some patient_first)] new_fetcher)) no_files))
   = [(''Patient'', ''sha256:unknown'', 2, ''2023-10-17'')]"
  by code_simp

text \<open>
  Claim C10, amended. \<open>calculate_file_hash\<close> returns \<open>sha256:unknown\<close> exactly for the
  paths whose file cannot be opened and read, whatever the error, and raises none. Every
  entry of the resource index, built from two stores that are dictionaries, carries as
  \<open>hash\<close> the fingerprint of its own file, so two entries whose files cannot be read
  carry the same hash, the sentinel. No fingerprint is compared: the \<open>elementCount\<close> and
  \<open>lastModified\<close> of an entry are those of the document its store holds (the store of
  the profiles first), whatever its hash.
\<close>

theorem unreadable_file_hash:
  assumes "distinct (dict_keys (fhir_resources self))"
    and "distinct (dict_keys (us_core_profiles self))"
    and "dict_get (ri_byName (generate_resource_index self fs)) name = Some entry"
    and "dict_get (ri_byName (generate_resource_index self fs)) name' = Some entry'"
  shows "(calculate_file_hash fs path = ''sha256:unknown'') = (\<exists>err. fs path = Inl err)
       \<and> ie_hash entry = calculate_file_hash fs (ie_file entry)
       \<and> ((\<exists>err. fs (ie_file entry) = Inl err) \<and> (\<exists>err. fs (ie_file entry') = Inl err)
            \<longrightarrow> ie_hash entry = ''sha256:unknown'' \<and> ie_hash entry' = ie_hash entry)
       \<and> (\<exists>data.
            (dict_get (us_core_profiles self) name = Some data
             \<or> dict_get (us_core_profiles self) name = None \<and> dict_get (fhir_resources self) name = Some data)
            \<and> ie_elementCount entry = int (length (p_elements data))
            \<and> ie_lastModified entry = p_date data)"
proof -
  have hash: "ie_hash e = calculate_file_hash fs (ie_file e)"
    if "dict_get (ri_byName (generate_resource_index self fs)) n = Some e" for n e
    using index_entry_of_store [OF assms(1,2) that]
    by (auto simp: us_core_index_entry_def fhir_index_entry_def fhir_dir_file_def us_core_dir_file_def)
  have one: "ie_hash entry = calculate_file_hash fs (ie_file entry)"
    using assms(3) by (rule hash)
  have two: "ie_hash entry' = calculate_file_hash fs (ie_file entry')"
    using assms(4) by (rule hash)
  have equal: "(\<exists>err. fs (ie_file entry) = Inl err) \<and> (\<exists>err. fs (ie_file entry') = Inl err)
            \<longrightarrow> ie_hash entry = ''sha256:unknown'' \<and> ie_hash entry' = ie_hash entry"
    by (simp add: one two sentinel_only_when_unreadable [symmetric])
  have data: "\<exists>data.
            (dict_get (us_core_profiles self) name = Some data
             \<or> dict_get (us_core_profiles self) name = None \<and> dict_get (fhir_resources self) name = Some data)
            \<and> ie_elementCount entry = int (length (p_elements data))
            \<and> ie_lastModified entry = p_date data"
    using index_entry_of_store [OF assms(1,2,3)]
    by (auto simp: us_core_index_entry_def fhir_index_entry_def)
  from sentinel_only_when_unreadable [of fs path] one equal data show ?thesis
    by (intro conjI)
qed

text \<open>
  C10 amended, at the entries of \<open>Observation\<close> and \<open>USCorePatient\<close>, in a directory
  where nothing can be read.
\<close>

theorem unreadable_file_hash_witness:
  "\<exists>entry entry'.
     dict_get (ri_byName (generate_resource_index after_both_downloads no_files)) ''Observation'' = Some entry
     \<and> dict_get (ri_byName (generate_resource_index after_both_downloads no_files)) ''USCorePatient'' = Some entry'
     \<and> (\<exists>err. no_files (ie_file entry) = Inl err) \<and> (\<exists>err. no_files (ie_file entry') = Inl err)
     \<and> calculate_file_hash no_files (ie_file entry) = ''sha256:unknown''
     \<and> ie_hash entry = ''sha256:unknown'' \<and> ie_hash entry' = ie_hash entry
     \<and> (\<exists>data.
          (dict_get (us_core_profiles after_both_downloads) ''Observation'' = Some data
           \<or> dict_get (us_core_profiles after_both_downloads) ''Observation'' = None
              \<and> dict_get (fhir_resources after_both_downloads) ''Observation'' = Some data)
          \<and> ie_elementCount entry = int (length (p_elements data))
          \<and> ie_lastModified entry = p_date data)"
proof -
  let ?index = "ri_byName (generate_resource_index after_both_downloads no_files)"
  have keys: "distinct (dict_keys (fhir_resources after_both_downloads))"
    "distinct (dict_keys (us_core_profiles after_both_downloads))"
    by code_simp+
  have "dict_get ?index ''Observation'' \<noteq> None" "dict_get ?index ''USCorePatient'' \<noteq> None"
    by code_simp+
  then obtain entry entry' where
    a: "dict_get ?index ''Observation'' = Some entry" and b: "dict_get ?index ''USCorePatient'' = Some entry'"
    by auto
  have unreadable: "\<exists>err. no_files p = Inl err" for p
    by (simp add: no_files_def)
  note all = unreadable_file_hash [OF keys a b, of "ie_file entry"]
  have sentinel: "calculate_file_hash no_files (ie_file entry) = ''sha256:unknown''"
    using conjunct1 [OF all] unreadable by simp
  have both: "ie_hash entry = ''sha256:unknown'' \<and> ie_hash entry' = ie_hash entry"
    using conjunct1 [OF conjunct2 [OF conjunct2 [OF all]]] unreadable by blast
  then have first: "ie_hash entry = ''sha256:unknown''" and equal: "ie_hash entry' = ie_hash entry"
    by simp_all
  have data: "\<exists>data.
          (dict_get (us_core_profiles after_both_downloads) ''Observation'' = Some data
           \<or> dict_get (us_core_profiles after_both_downloads) ''Observation'' = None
              \<and> dict_get (fhir_resources after_both_downloads) ''Observation'' = Some data)
          \<and> ie_elementCount entry = int (length (p_elements data))
          \<and> ie_lastModified entry = p_date data"
    using conjunct2 [OF conjunct2 [OF conjunct2 [OF all]]] .
  from a b unreadable [of "ie_file entry"] unreadable [of "ie_file entry'"] sentinel first equal data
  have "dict_get ?index ''Observation'' = Some entry
     \<and> dict_get ?index ''USCorePatient'' = Some entry'
     \<and> (\<exists>err. no_files (ie_file entry) = Inl err) \<and> (\<exists>err. no_files (ie_file entry') = Inl err)
     \<and> calculate_file_hash no_files (ie_file entry) = ''sha256:unknown''
     \<and> ie_hash entry = ''sha256:unknown'' \<and> ie_hash entry' = ie_hash entry
     \<and> (\<exists>data.
          (dict_get (us_core_profiles after_both_downloads) ''Observation'' = Some data
           \<or> dict_get (us_core_profiles after_both_downloads) ''Observation'' = None
              \<and> dict_get (fhir_resources after_both_downloads) ''Observation'' = Some data)
          \<and> ie_elementCount entry = int (length (p_elements data))
          \<and> ie_lastModified entry = p_date data)"
    by (intro conjI)
  then show ?thesis
    by (intro exI)
qed

section \<open>Properties of the content hash\<close>

text \<open>The model of SHA-256 on the test vector \<open>abc\<close> of FIPS 180-4.\<close>

lemma sha256_abc: "sha256_hexdigest ''abc'' = ''ba7816bf8f01cfea414140de5dae2223b00361a396177a9cb410ff61f20015ad''"
  by code_simp

text \<open>Sorting by key commutes with a map that keeps the keys.\<close>

lemma insort_key_map_fst:
  assumes "\<And>x. fst (h x) = fst x"
  shows "insort_key fst (h x) (map h ys) = map h (insort_key fst x ys)"
  by (induction ys) (simp_all add: assms)

lemma sort_key_map_fst:
  assumes "\<And>x. fst (h x) = fst x"
  shows "sort_key fst (map h xs) = map h (sort_key fst xs)"
  by (induction xs) (simp_all add: insort_key_map_fst [OF assms])

lemma map_insort_key: "map f (insort_key f x ys) = insort (f x) (map f ys)"
  by (induction ys) simp_all

lemma map_sort_key: "map f (sort_key f xs) = sort (map f xs)"
  by (induction xs) (simp_all add: map_insort_key)

text \<open>The sorted dump of a value is the plain dump of its canonical form.\<close>

lemma dumps_canonical: "dumps True v = dumps False (canonical v)"
proof (induction v rule: canonical.induct)
  case (1 xs)
  then have m: "map (dumps True) xs = map (\<lambda>x. dumps False (canonical x)) xs"
    by (intro map_cong) simp_all
  show ?case
    by (simp add: comp_def m)
next
  case (2 kvs)
  have m: "map (\<lambda>kv. (fst kv, dumps True (snd kv))) kvs
        = map (\<lambda>kv. (fst kv, dumps False (canonical (snd kv)))) kvs"
    using 2 by (intro map_cong) simp_all
  have c: "map (\<lambda>kv. (fst kv, dumps False (snd kv)))
                   (sort_key fst (map (\<lambda>kv. (fst kv, canonical (snd kv))) kvs))
                 = sort_key fst (map (\<lambda>kv. (fst kv, dumps False (canonical (snd kv)))) kvs)"
    by (simp add: sort_key_map_fst [symmetric] comp_def)
  show ?case
    by (simp add: m c)
qed simp_all

lemma same_content_dumps:
  "same_content a b \<Longrightarrow> dumps True a = dumps True b"
  by (simp add: same_content_def dumps_canonical)

text \<open>Two objects with the same members in any order have the same content.\<close>

lemma reordered_object_same_content:
  assumes "distinct (map fst kvs)" and "distinct (map fst kvs')" and "set kvs = set kvs'"
  shows "same_content (JObj kvs) (JObj kvs')"
proof -
  let ?g = "\<lambda>kv :: string \<times> json. (fst kv, canonical (snd kv))"
  let ?a = "sort_key fst (map ?g kvs)" and ?b = "sort_key fst (map ?g kvs')"
  have keys: "map fst (map ?g l) = map fst l" for l
    by (simp add: comp_def)
  have sets: "set ?a = set ?b"
    using assms(3) by simp
  have da: "distinct (map fst ?a)"
    using assms(1) by (simp only: map_sort_key keys distinct_sort)
  have db: "distinct (map fst ?b)"
    using assms(2) by (simp only: map_sort_key keys distinct_sort)
  from da have "inj_on fst (set ?a)"
    by (simp only: distinct_map)
  then have "inj_on fst (set ?a \<union> set ?b)"
    by (simp only: sets [symmetric] Un_absorb)
  then have "?a = ?b"
    using da db sets by (intro map_sorted_distinct_set_unique) (simp_all only: sorted_sort_key)
  then show ?thesis
    by (simp add: same_content_def)
qed

text \<open>
  Claim C5 as stated fails: the same entry written with its two keys in the two possible
  orders has the same content, and \<open>calculate_file_hash\<close> gives its two files
  different fingerprints, since it hashes the bytes of the file as \<open>json.dump\<close> wrote
  them, in insertion order.
\<close>

theorem file_hash_depends_on_key_order:
  "same_content entry_name_first entry_type_first
   \<and> calculate_file_hash (save_resource_file ''Patient'' entry_name_first ''fhir-r4'' no_files)
        (fhir_dir_file ''Patient'')
     = ''sha256:30173f98182cc33e''
   \<and> calculate_file_hash (save_resource_file ''Patient'' entry_type_first ''fhir-r4'' no_files)
        (fhir_dir_file ''Patient'')
     = ''sha256:c98920a1e74e68f0''"
  by code_simp

text \<open>Sorting by key keeps the value found under each key.\<close>

lemma map_of_insort_key_fst:
  "map_of (insort_key fst x ys) k = map_of (x # ys) k"
  by (induction ys) auto

lemma map_of_sort_key_fst: "map_of (sort_key fst xs) k = map_of xs k"
  by (induction xs) (simp_all add: map_of_insort_key_fst)

lemma map_of_canonical_pairs:
  "map_of (map (\<lambda>kv. (fst kv, canonical (snd kv))) kvs) k = map_option canonical (map_of kvs k)"
  by (induction kvs) auto

text \<open>Two values with the same content have the same length and the same metadata.\<close>

lemma py_len_canonical: "py_len (canonical v) = py_len v"
  by (cases v) (simp_all add: py_len_def)

lemma same_content_py_len: "canonical a = canonical b \<Longrightarrow> py_len a = py_len b"
  using py_len_canonical [of a] py_len_canonical [of b] by simp

lemma same_content_metadata:
  assumes "same_content d1 d2"
  shows "data_type_metadata d1 = data_type_metadata d2"
proof -
  from assms have c: "canonical d1 = canonical d2"
    by (simp add: same_content_def)
  have h: "data_type_hash d1 = data_type_hash d2"
    using same_content_dumps [OF assms] by (simp add: data_type_hash_def)
  show ?thesis
  proof (cases d1)
    case (JObj kvs1)
    with c obtain kvs2 where d2: "d2 = JObj kvs2"
      by (cases d2) simp_all
    from c have "map_of (sort_key fst (map (\<lambda>kv. (fst kv, canonical (snd kv))) kvs1)) ''elements''
               = map_of (sort_key fst (map (\<lambda>kv. (fst kv, canonical (snd kv))) kvs2)) ''elements''"
      by (simp add: JObj d2)
    then have e: "map_option canonical (map_of kvs1 ''elements'')
                = map_option canonical (map_of kvs2 ''elements'')"
      by (simp only: map_of_sort_key_fst map_of_canonical_pairs)
    show ?thesis
    proof (cases "map_of kvs1 ''elements''")
      case None
      with e have "map_of kvs2 ''elements'' = None"
        by simp
      with None show ?thesis
        by (simp add: data_type_metadata_def JObj d2 dict_get_def)
    next
      case (Some e1)
      with e obtain e2 where e2: "map_of kvs2 ''elements'' = Some e2" "canonical e1 = canonical e2"
        by (cases "map_of kvs2 ''elements''") simp_all
      from e2(2) have "py_len e1 = py_len e2"
        by (rule same_content_py_len)
      with Some e2(1) h show ?thesis
        by (simp add: data_type_metadata_def JObj d2 dict_get_def split: sum.splits)
    qed
  next
    case JNull
    with c have "d2 = JNull" by (cases d2) simp_all
    with JNull show ?thesis by simp
  next
    case (JBool b)
    with c have "d2 = JBool b" by (cases d2) simp_all
    with JBool show ?thesis by simp
  next
    case (JInt i)
    with c have "d2 = JInt i" by (cases d2) simp_all
    with JInt show ?thesis by simp
  next
    case (JStr s)
    with c have "d2 = JStr s" by (cases d2) simp_all
    with JStr show ?thesis by simp
  next
    case (JList xs)
    with c obtain ys where "d2 = JList ys" by (cases d2) simp_all
    with JList show ?thesis by (simp add: data_type_metadata_def)
  qed
qed

text \<open>
  Claim C5, amended. For two entries with the same content, whatever the order of their
  keys at any depth, \<open>save_data_type\<close> computes the same \<open>_metadata\<close>, or raises the
  same error: the same \<open>elementCount\<close> and the same \<open>hash\<close>, which is computed over
  \<open>json.dumps(data, sort_keys=True)\<close> and has 16 digits; the file it writes holds the
  entry as it was given, with that \<open>_metadata\<close>. The fingerprint of
  \<open>calculate_file_hash\<close> is a function of the bytes of the file: two readable files
  with the same bytes get the same fingerprint of 23 characters.
\<close>

theorem hash_of_sorted_dump_ignores_key_order:
  assumes "same_content d1 d2" and "fs1 path1 = Inr bytes" and "fs2 path2 = Inr bytes"
  shows "data_type_metadata d1 = data_type_metadata d2
       \<and> ((\<exists>err. data_type_metadata d1 = Inl err
                 \<and> save_data_type type_name d1 fs = Inl err \<and> save_data_type type_name d2 fs = Inl err)
          \<or> (\<exists>n kvs1 kvs2. d1 = JObj kvs1 \<and> d2 = JObj kvs2
                 \<and> data_type_metadata d1
                    = Inr (JObj [(''downloaded'', JBool True),
                                 (''source'', JStr ''https://hl7.org/fhir/R4/''),
                                 (''elementCount'', JInt n),
                                 (''hash'', JStr (data_type_hash d2))])
                 \<and> save_data_type type_name d1 fs
                    = Inr (fs(datatypes_dir_file type_name :=
                         Inr (dump_indent 0 (JObj (dict_set ''_metadata''
                           (JObj [(''downloaded'', JBool True),
                                  (''source'', JStr ''https://hl7.org/fhir/R4/''),
                                  (''elementCount'', JInt n),
                                  (''hash'', JStr (data_type_hash d2))]) kvs1)))))
                 \<and> save_data_type type_name d2 fs
                    = Inr (fs(datatypes_dir_file type_name :=
                         Inr (dump_indent 0 (JObj (dict_set ''_metadata''
                           (JObj [(''downloaded'', JBool True),
                                  (''source'', JStr ''https://hl7.org/fhir/R4/''),
                                  (''elementCount'', JInt n),
                                  (''hash'', JStr (data_type_hash d2))]) kvs2)))))))
       \<and> data_type_hash d1 = data_type_hash d2
       \<and> length (data_type_hash d1) = 16
       \<and> calculate_file_hash fs1 path1 = calculate_file_hash fs2 path2
       \<and> length (calculate_file_hash fs1 path1) = 23"
proof -
  note m = same_content_metadata [OF assms(1)]
  have h: "data_type_hash d1 = data_type_hash d2"
    using same_content_dumps [OF assms(1)] by (simp add: data_type_hash_def)
  have l: "length (data_type_hash d1) = 16"
    by (simp add: data_type_hash_def length_sha256_hexdigest)
  have f: "calculate_file_hash fs1 path1 = calculate_file_hash fs2 path2"
    "length (calculate_file_hash fs1 path1) = 23"
    using assms(2,3) by (simp_all add: calculate_file_hash_def length_sha256_hexdigest)
  have s: "(\<exists>err. data_type_metadata d1 = Inl err
                 \<and> save_data_type type_name d1 fs = Inl err \<and> save_data_type type_name d2 fs = Inl err)
          \<or> (\<exists>n kvs1 kvs2. d1 = JObj kvs1 \<and> d2 = JObj kvs2
                 \<and> data_type_metadata d1
                    = Inr (JObj [(''downloaded'', JBool True),
                                 (''source'', JStr ''https://hl7.org/fhir/R4/''),
                                 (''elementCount'', JInt n),
                                 (''hash'', JStr (data_type_hash d2))])
                 \<and> save_data_type type_name d1 fs
                    = Inr (fs(datatypes_dir_file type_name :=
                         Inr (dump_indent 0 (JObj (dict_set ''_metadata''
                           (JObj [(''downloaded'', JBool True),
                                  (''source'', JStr ''https://hl7.org/fhir/R4/''),
                                  (''elementCount'', JInt n),
                                  (''hash'', JStr (data_type_hash d2))]) kvs1)))))
                 \<and> save_data_type type_name d2 fs
                    = Inr (fs(datatypes_dir_file type_name :=
                         Inr (dump_indent 0 (JObj (dict_set ''_metadata''
                           (JObj [(''downloaded'', JBool True),
                                  (''source'', JStr ''https://hl7.org/fhir/R4/''),
                                  (''elementCount'', JInt n),
                                  (''hash'', JStr (data_type_hash d2))]) kvs2))))))"
  proof (cases "data_type_metadata d1")
    case (Inl err)
    with m have other: "data_type_metadata d2 = Inl err"
      by simp
    have "save_data_type type_name d1 fs = Inl err"
      by (simp add: save_data_type_def Inl)
    moreover have "save_data_type type_name d2 fs = Inl err"
      by (simp add: save_data_type_def other)
    ultimately show ?thesis
      using Inl by (intro disjI1 exI conjI)
  next
    case (Inr metadata)
    then obtain kvs1 where d1: "d1 = JObj kvs1"
      by (cases d1) (simp_all add: data_type_metadata_def)
    from Inr m obtain kvs2 where d2: "d2 = JObj kvs2"
      by (cases d2) (simp_all add: data_type_metadata_def)
    from Inr obtain n where
      shape: "metadata = JObj [(''downloaded'', JBool True),
                               (''source'', JStr ''https://hl7.org/fhir/R4/''),
                               (''elementCount'', JInt n),
                               (''hash'', JStr (data_type_hash d2))]"
      unfolding d1 data_type_metadata_def h [unfolded d1]
      by (auto split: option.splits sum.splits)
    have "save_data_type type_name d1 fs
          = Inr (fs(datatypes_dir_file type_name :=
                   Inr (dump_indent 0 (JObj (dict_set ''_metadata'' metadata kvs1)))))"
      using Inr by (simp add: save_data_type_def d1)
    moreover have "save_data_type type_name d2 fs
          = Inr (fs(datatypes_dir_file type_name :=
                   Inr (dump_indent 0 (JObj (dict_set ''_metadata'' metadata kvs2)))))"
      using Inr m by (simp add: save_data_type_def d2)
    ultimately show ?thesis
      using Inr d1 d2 unfolding shape by (intro disjI2 exI conjI)
  qed
  from m s h l f show ?thesis
    by (intro conjI)
qed

text \<open>
  C5 amended, at the data type entry \<open>Period\<close> with its keys, and those of its element,
  in two orders, and at one entry saved under two families.
\<close>

theorem hash_of_sorted_dump_ignores_key_order_witness:
  "same_content period_name_first period_elements_first
   \<and> data_type_metadata period_name_first = data_type_metadata period_elements_first
   \<and> (\<exists>metadata. data_type_metadata period_name_first = Inr metadata)
   \<and> (\<exists>files. save_data_type ''Period'' period_name_first no_files = Inr files)
   \<and> data_type_hash period_name_first = data_type_hash period_elements_first
   \<and> length (data_type_hash period_name_first) = 16
   \<and> calculate_file_hash (save_resource_file ''Patient'' entry_name_first ''fhir-r4'' no_files)
        (fhir_dir_file ''Patient'')
     = calculate_file_hash (save_resource_file ''USCorePatient'' entry_name_first ''us-core-stu6.1'' no_files)
        (us_core_dir_file ''USCorePatient'')
   \<and> length (calculate_file_hash (save_resource_file ''Patient'' entry_name_first ''fhir-r4'' no_files)
        (fhir_dir_file ''Patient'')) = 23"
proof -
  have s: "same_content period_name_first period_elements_first"
    by code_simp
  have a: "save_resource_file ''Patient'' entry_name_first ''fhir-r4'' no_files
             (fhir_dir_file ''Patient'') = Inr (dump_indent 0 entry_name_first)"
    by (simp add: save_resource_file_def)
  have b: "save_resource_file ''USCorePatient'' entry_name_first ''us-core-stu6.1'' no_files
             (us_core_dir_file ''USCorePatient'') = Inr (dump_indent 0 entry_name_first)"
    by (simp add: save_resource_file_def)
  note all = hash_of_sorted_dump_ignores_key_order
      [of period_name_first period_elements_first
          "save_resource_file ''Patient'' entry_name_first ''fhir-r4'' no_files"
          "fhir_dir_file ''Patient''" "dump_indent 0 entry_name_first"
          "save_resource_file ''USCorePatient'' entry_name_first ''us-core-stu6.1'' no_files"
          "us_core_dir_file ''USCorePatient''" "''Period''" no_files, OF s a b]
  have m: "\<exists>metadata. data_type_metadata period_name_first = Inr metadata"
    by (simp add: data_type_metadata_def period_name_first_def dict_get_def py_len_def)
  then have f: "\<exists>files. save_data_type ''Period'' period_name_first no_files = Inr files"
    using conjunct1 [OF conjunct2 [OF all]] by auto
  note rest = conjunct2 [OF conjunct2 [OF all]]
  note h = conjunct1 [OF rest]
  note l = conjunct1 [OF conjunct2 [OF rest]]
  note c = conjunct1 [OF conjunct2 [OF conjunct2 [OF rest]]]
  note n = conjunct2 [OF conjunct2 [OF conjunct2 [OF rest]]]
  from s conjunct1 [OF all] m f h l c n show ?thesis
    by (intro conjI)
qed

section \<open>Properties of the index update\<close>

text \<open>
  Claim C7 fails on the code. Adding the data type file \<open>Extension.json\<close> to an index of
  one resource gives \<open>totalResources = 2\<close>; adding the same file again gives 3, in the
  resource index and in the master index, although \<open>byName\<close>, \<open>bySpec\<close> and
  \<open>byType\<close> are what they were after the first update and no name was removed.
\<close>

theorem second_update_counts_again:
  "(case update_indexes index_before master_before [extension_file] of
      Inl err \<Rightarrow> None
    | Inr (index1, master1) \<Rightarrow>
        (case update_indexes index1 master1 [extension_file] of
           Inl err \<Rightarrow> None
         | Inr (index2, master2) \<Rightarrow>
             Some (dict_get (ri_statistics index_before) ''totalResources'',
                   dict_get (ri_statistics index1) ''totalResources'',
                   dict_get (ri_statistics index2) ''totalResources'',
                   dict_get (mi_stats master1) ''totalResources'',
                   dict_get (mi_stats master2) ''totalResources'',
                   map fst (ri_byName index1),
                   map fst (ri_byName index2),
                   dict_get (ri_bySpec index2) ''fhir-r4'',
                   ri_byName index2 = ri_byName index1
                   \<and> ri_bySpec index2 = ri_bySpec index1
                   \<and> ri_byType index2 = ri_byType index1)))
   = Some (Some 1, Some 2, Some 3, Some 2, Some 3,
           [''Patient'', ''Extension''], [''Patient'', ''Extension''],
           Some [''Extension'', ''Patient''], True)"
  by code_simp

end
